theory Spec2Isabelle
  imports Complex_Main "HOL-Library.Log_Nat"
begin

section \<open>JavaScript strings\<close>

text \<open>
  A JavaScript string is a sequence of UTF-16 code units, and \<^verbatim>\<open>length\<close> counts them.
  The model takes the code units below 256 (Latin-1), so that one \<^typ>\<open>char\<close> is one code
  unit and \<^const>\<open>length\<close> is \<^verbatim>\<open>String.prototype.length\<close>.
\<close>

text \<open>
  \<^verbatim>\<open>String.prototype.toLowerCase\<close> on Latin-1: \<^verbatim>\<open>A-Z\<close> and the accented capitals
  U+00C0..U+00DE (without the multiplication sign U+00D7) move up by 32; every other
  code unit stays.
\<close>

definition lower_char :: "char \<Rightarrow> char" where
  "lower_char c =
     (let n = (of_char c :: nat)
      in if (65 \<le> n \<and> n \<le> 90) \<or> (192 \<le> n \<and> n \<le> 222 \<and> n \<noteq> 215)
         then char_of (n + 32) else c)"

definition toLowerCase :: "string \<Rightarrow> string" where
  "toLowerCase s = map lower_char s"

text \<open>\<^verbatim>\<open>s.startsWith(p)\<close>, \<^verbatim>\<open>s.endsWith(p)\<close> and \<^verbatim>\<open>s.includes(p)\<close>.\<close>

definition startsWith :: "string \<Rightarrow> string \<Rightarrow> bool" where
  "startsWith s p = (take (length p) s = p)"

definition endsWith :: "string \<Rightarrow> string \<Rightarrow> bool" where
  "endsWith s p = (length p \<le> length s \<and> drop (length s - length p) s = p)"

fun includes_sub :: "string \<Rightarrow> string \<Rightarrow> bool" where
  "includes_sub [] p = (p = [])"
| "includes_sub (c # cs) p = (startsWith (c # cs) p \<or> includes_sub cs p)"

text \<open>
  The white space that \<^verbatim>\<open>String.prototype.trim\<close> strips, among the code units below 256:
  TAB, LF, VT, FF, CR, SPACE and NO-BREAK SPACE.
\<close>

definition isWhiteSpace :: "char \<Rightarrow> bool" where
  "isWhiteSpace c = (c \<in> set [CHR 0x09, CHR 0x0A, CHR 0x0B, CHR 0x0C, CHR 0x0D, CHR 0x20, CHR 0xA0])"

definition trim :: "string \<Rightarrow> string" where
  "trim s = rev (dropWhile isWhiteSpace (rev (dropWhile isWhiteSpace s)))"

text \<open>
  The operator \<^verbatim>\<open>||\<close> on a value that is a string or \<^verbatim>\<open>undefined\<close>/\<^verbatim>\<open>null\<close>
  (\<^const>\<open>None\<close>): the empty string and \<^verbatim>\<open>undefined\<close> are falsy, and the right operand
  is taken.
\<close>

definition or_else :: "string option \<Rightarrow> string \<Rightarrow> string" where
  "or_else v d = (case v of None \<Rightarrow> d | Some x \<Rightarrow> if x = [] then d else x)"

text \<open>A non-negative integer printed in decimal, as the template literal prints the status.\<close>

definition digit_char :: "nat \<Rightarrow> char" where
  "digit_char d = char_of (48 + d)"

fun show_nat :: "nat \<Rightarrow> string" where
  "show_nat n = (if n < 10 then [digit_char n] else show_nat (n div 10) @ [digit_char (n mod 10)])"

declare show_nat.simps [simp del]

definition show_int :: "int \<Rightarrow> string" where
  "show_int n = (if n < 0 then ''-'' @ show_nat (nat (- n)) else show_nat (nat n))"

section \<open>JavaScript values\<close>

text \<open>
  A value read from a parsed JSON body. The handlers observe two things of such a value:
  whether it is truthy (for \<^verbatim>\<open>||\<close>) and the string that \<^verbatim>\<open>String(value)\<close> yields (for
  \<^verbatim>\<open>new Error(value).message\<close>). A string is \<open>StringValue\<close>; any other value (a number,
  a boolean, \<^verbatim>\<open>null\<close>, an array, an object) is \<open>OtherValue\<close> with these two observations.
\<close>

datatype js_value = StringValue string | OtherValue bool string

definition truthy :: "js_value \<Rightarrow> bool" where
  "truthy v = (case v of StringValue x \<Rightarrow> x \<noteq> [] | OtherValue t x \<Rightarrow> t)"

text \<open>\<^verbatim>\<open>String(value)\<close>.\<close>

definition js_String :: "js_value \<Rightarrow> string" where
  "js_String v = (case v of StringValue x \<Rightarrow> x | OtherValue t x \<Rightarrow> x)"

text \<open>
  The operator \<^verbatim>\<open>||\<close> with a value that may be \<^verbatim>\<open>undefined\<close> (\<^const>\<open>None\<close>) on the left
  and a string on the right: the left operand when it is truthy, the right one otherwise.
\<close>

definition js_or :: "js_value option \<Rightarrow> string \<Rightarrow> js_value" where
  "js_or v d = (case v of None \<Rightarrow> StringValue d | Some x \<Rightarrow> if truthy x then x else StringValue d)"

text \<open>Some JSON values: an integer, \<^verbatim>\<open>null\<close>, a boolean, an object, the empty array.\<close>

definition js_int :: "int \<Rightarrow> js_value" where
  "js_int n = OtherValue (n \<noteq> 0) (show_int n)"

definition js_null :: js_value where
  "js_null = OtherValue False ''null''"

definition js_bool :: "bool \<Rightarrow> js_value" where
  "js_bool b = OtherValue b (if b then ''true'' else ''false'')"

definition js_object :: js_value where
  "js_object = OtherValue True ''[object Object]''"

definition js_empty_array :: js_value where
  "js_empty_array = OtherValue True []"

section \<open>JavaScript numbers\<close>

text \<open>
  A finite JavaScript number is a binary64 value, modelled by the rational it denotes.
  \<open>fl64\<close> rounds a rational to the nearest binary64 value, ties to the even significand
  (53 bits, least exponent \<open>-1074\<close>, so subnormals are covered). Overflow to
  \<^verbatim>\<open>Infinity\<close> is outside the model: the argument is taken below \<open>2 ^ 1024\<close>.
\<close>

definition pow2 :: "int \<Rightarrow> rat" where
  "pow2 e = (if 0 \<le> e then 2 ^ nat e else 1 / 2 ^ nat (- e))"

text \<open>For \<open>0 < x\<close>, the integer \<open>k\<close> with \<open>2 ^ k \<le> x < 2 ^ (k + 1)\<close>.\<close>

definition floor_log2 :: "rat \<Rightarrow> int" where
  "floor_log2 x =
     (if 1 \<le> x then int (floorlog 2 (nat \<lfloor>x\<rfloor>)) - 1
      else - int (floorlog 2 (nat (\<lceil>1 / x\<rceil> - 1))))"

definition round_half_even :: "rat \<Rightarrow> int" where
  "round_half_even q =
     (let f = \<lfloor>q\<rfloor>; r = q - of_int f
      in if r < 1 / 2 then f else if 1 / 2 < r then f + 1 else if even f then f else f + 1)"

definition fl64 :: "rat \<Rightarrow> rat" where
  "fl64 x =
     (if x = 0 then 0
      else let e = max (floor_log2 \<bar>x\<bar> - 52) (- 1074)
           in sgn x * of_int (round_half_even (\<bar>x\<bar> / pow2 e)) * pow2 e)"

text \<open>The operator \<^verbatim>\<open>*\<close> on two numbers: the exact product, rounded once.\<close>

definition js_times :: "rat \<Rightarrow> rat \<Rightarrow> rat" where
  "js_times a b = fl64 (a * b)"

text \<open>
  \<^verbatim>\<open>Math.round\<close>: the nearest integer, a tie going to the larger one. It is computed on the
  exact value of its argument.
\<close>

definition Math_round :: "rat \<Rightarrow> int" where
  "Math_round x = \<lfloor>x + 1 / 2\<rfloor>"

section \<open>The remote service\<close>

text \<open>
  The outcome of \<^verbatim>\<open>await response.json()\<close> and of the field reads that follow it:
  \<open>Rejects m\<close> when the promise rejects or a read throws (the body is not JSON, or is
  \<^verbatim>\<open>null\<close>), \<open>m\<close> being the message of the error; \<open>Resolves v\<close> with the fields read.
\<close>

datatype 'a json = Rejects string | Resolves 'a

text \<open>
  The fields that the handlers read from a reply of \<^verbatim>\<open>/predict\<close> or \<^verbatim>\<open>/audio-predict\<close>,
  at the types the \<^verbatim>\<open>result\<close> state declares (\<^verbatim>\<open>label: string; confidence: number\<close>).
  \<open>json_error\<close> is \<^verbatim>\<open>errorData?.error\<close>, a value of any kind, \<^const>\<open>None\<close> when the
  field is missing.
\<close>

record predict_json =
  json_error :: "js_value option"
  json_prediction :: string
  json_confidence :: rat

text \<open>\<open>json_explanation\<close> is \<^verbatim>\<open>expData.explanation\<close>, \<^const>\<open>None\<close> when the field is missing.\<close>

record explain_json =
  json_explanation :: "string option"

text \<open>
  The outcome of \<^verbatim>\<open>await fetch(...)\<close>: the promise rejects with an error of message \<open>m\<close>,
  or resolves to a response with a status and a body.
\<close>

datatype 'a fetch = Fails string | Responds nat "'a json"

text \<open>\<^verbatim>\<open>response.ok\<close>.\<close>

definition ok :: "nat \<Rightarrow> bool" where
  "ok status = (200 \<le> status \<and> status \<le> 299)"

text \<open>The fields of a \<^verbatim>\<open>File\<close> that the component reads.\<close>

record js_file =
  name :: string
  mime_type :: string
  file_size :: nat

text \<open>The three endpoints, each a function of what the request carries.\<close>

record backend =
  predict :: "string \<Rightarrow> predict_json fetch"
  explain :: "string \<Rightarrow> explain_json fetch"
  audio_predict :: "js_file \<Rightarrow> predict_json fetch"

datatype request = Predict string | Explain string | AudioPredict js_file

text \<open>
  What a \<^verbatim>\<open>try\<close> block leaves behind: the state where it ended, the message of the error
  it threw (if any), and the requests it issued, each with the state it was issued in.
\<close>

record 's attempt =
  state_at_exit :: 's
  thrown :: "string option"
  issued :: "(request \<times> 's) list"

text \<open>A run of a handler: the state it leaves and the requests it issued.\<close>

record 's run =
  final :: 's
  requests :: "(request \<times> 's) list"

section \<open>The result card (PredictionResult.tsx)\<close>

text \<open>The value of the \<^verbatim>\<open>result\<close> state: \<^verbatim>\<open>{ label: string; confidence: number }\<close>.\<close>

record prediction =
  label :: string
  confidence :: rat

definition isDeceptive :: "prediction \<Rightarrow> bool" where
  "isDeceptive p = (toLowerCase (label p) = ''deceptive'')"

definition confidencePercent :: "prediction \<Rightarrow> int" where
  "confidencePercent p = Math_round (confidence p)"

section \<open>The text screen (TextAnalysis.tsx)\<close>

text \<open>
  The state of the component; \<open>input_text\<close> is the \<^verbatim>\<open>text\<close> state. A state setter is
  an update of the record, in program order. \<^verbatim>\<open>characterCount\<close> is left out: an effect
  keeps it equal to \<^verbatim>\<open>text.length\<close>. For \<^verbatim>\<open>error\<close> and \<^verbatim>\<open>explanation\<close>,
  \<^const>\<open>None\<close> is \<^verbatim>\<open>null\<close> (or \<^verbatim>\<open>undefined\<close>: the component only tests them for
  truth).
\<close>

record text_state =
  input_text :: string
  isLoading :: bool
  isExplaining :: bool
  error :: "string option"
  result :: "prediction option"
  explanation :: "string option"

definition TextAnalysis_handleClearText :: "text_state \<Rightarrow> text_state" where
  "TextAnalysis_handleClearText s =
     s\<lparr>input_text := [], result := None, error := None, explanation := None\<rparr>"

text \<open>The \<^verbatim>\<open>try\<close> block of \<^verbatim>\<open>handleSubmit\<close>.\<close>

definition TextAnalysis_try :: "backend \<Rightarrow> text_state \<Rightarrow> text_state attempt" where
  "TextAnalysis_try net s =
     (case predict net (input_text s) of
        Fails m \<Rightarrow>
          \<lparr>state_at_exit = s, thrown = Some m, issued = [(Predict (input_text s), s)]\<rparr>
      | Responds status body \<Rightarrow>
          if \<not> ok status then
            \<lparr>state_at_exit = s,
             thrown = Some (js_String (js_or
               (case body of Rejects m \<Rightarrow> None | Resolves errorData \<Rightarrow> json_error errorData)
               (''Server error: '' @ show_nat status))),
             issued = [(Predict (input_text s), s)]\<rparr>
          else
            (case body of
               Rejects m \<Rightarrow>
                 \<lparr>state_at_exit = s, thrown = Some m, issued = [(Predict (input_text s), s)]\<rparr>
             | Resolves data \<Rightarrow>
                 let s1 = s\<lparr>result := Some \<lparr>label = json_prediction data,
                                confidence = js_times (json_confidence data) 100\<rparr>\<rparr>;
                     s2 = s1\<lparr>isExplaining := True\<rparr>;
                     reqs = [(Predict (input_text s), s), (Explain (input_text s), s2)]
                 in (case explain net (input_text s) of
                       Fails m \<Rightarrow> \<lparr>state_at_exit = s2, thrown = Some m, issued = reqs\<rparr>
                     | Responds status' body' \<Rightarrow>
                         if ok status' then
                           (case body' of
                              Rejects m \<Rightarrow>
                                \<lparr>state_at_exit = s2, thrown = Some m, issued = reqs\<rparr>
                            | Resolves expData \<Rightarrow>
                                \<lparr>state_at_exit = s2\<lparr>explanation :=
                                   Some (or_else (json_explanation expData)
                                          ''No explanation available.'')\<rparr>,
                                 thrown = None, issued = reqs\<rparr>)
                         else \<lparr>state_at_exit = s2, thrown = None, issued = reqs\<rparr>)))"

text \<open>\<^verbatim>\<open>handleSubmit\<close>: the two checks, the resets, then \<^verbatim>\<open>try\<close>, \<^verbatim>\<open>catch\<close>, \<^verbatim>\<open>finally\<close>.\<close>

definition TextAnalysis_handleSubmit :: "backend \<Rightarrow> text_state \<Rightarrow> text_state run" where
  "TextAnalysis_handleSubmit net s =
     (if trim (input_text s) = [] then
        \<lparr>final = s\<lparr>error := Some ''Please enter some text to analyze''\<rparr>, requests = []\<rparr>
      else if length (input_text s) < 20 then
        \<lparr>final = s\<lparr>error :=
           Some ''Please enter at least 20 characters for more accurate analysis''\<rparr>,
         requests = []\<rparr>
      else
        let s0 = s\<lparr>isLoading := True, error := None, explanation := None, result := None\<rparr>;
            a = TextAnalysis_try net s0;
            s1 = (case thrown a of
                    None \<Rightarrow> state_at_exit a
                  | Some m \<Rightarrow> (state_at_exit a)\<lparr>error :=
                      Some (or_else (Some m) ''Failed to analyze text. Please try again.'')\<rparr>)
        in \<lparr>final = s1\<lparr>isLoading := False, isExplaining := False\<rparr>, requests = issued a\<rparr>)"

section \<open>The second text screen (TextAnalysisPage)\<close>

definition TextAnalysisPage_handleClearText :: "text_state \<Rightarrow> text_state" where
  "TextAnalysisPage_handleClearText s =
     s\<lparr>input_text := [], result := None, error := None, explanation := None\<rparr>"

definition TextAnalysisPage_handleUseExample :: "string \<Rightarrow> text_state \<Rightarrow> text_state" where
  "TextAnalysisPage_handleUseExample example s =
     s\<lparr>input_text := example, result := None, error := None, explanation := None\<rparr>"

definition TextAnalysisPage_try :: "backend \<Rightarrow> text_state \<Rightarrow> text_state attempt" where
  "TextAnalysisPage_try net s =
     (case predict net (input_text s) of
        Fails m \<Rightarrow>
          \<lparr>state_at_exit = s, thrown = Some m, issued = [(Predict (input_text s), s)]\<rparr>
      | Responds status body \<Rightarrow>
          if \<not> ok status then
            \<lparr>state_at_exit = s,
             thrown = Some (js_String (js_or
               (case body of Rejects m \<Rightarrow> None | Resolves errorData \<Rightarrow> json_error errorData)
               (''Server error: '' @ show_nat status))),
             issued = [(Predict (input_text s), s)]\<rparr>
          else
            (case body of
               Rejects m \<Rightarrow>
                 \<lparr>state_at_exit = s, thrown = Some m, issued = [(Predict (input_text s), s)]\<rparr>
             | Resolves data \<Rightarrow>
                 let s1 = s\<lparr>result := Some \<lparr>label = json_prediction data,
                                confidence = js_times (json_confidence data) 100\<rparr>\<rparr>;
                     s2 = s1\<lparr>isExplaining := True\<rparr>;
                     reqs = [(Predict (input_text s), s), (Explain (input_text s), s2)]
                 in (case explain net (input_text s) of
                       Fails m \<Rightarrow> \<lparr>state_at_exit = s2, thrown = Some m, issued = reqs\<rparr>
                     | Responds status' body' \<Rightarrow>
                         if ok status' then
                           (case body' of
                              Rejects m \<Rightarrow>
                                \<lparr>state_at_exit = s2, thrown = Some m, issued = reqs\<rparr>
                            | Resolves expData \<Rightarrow>
                                \<lparr>state_at_exit = s2\<lparr>explanation := json_explanation expData\<rparr>,
                                 thrown = None, issued = reqs\<rparr>)
                         else
                           \<lparr>state_at_exit = s2\<lparr>explanation :=
                              Some ''Explanation request failed. Please try again.''\<rparr>,
                            thrown = None, issued = reqs\<rparr>)))"

definition TextAnalysisPage_handleSubmit :: "backend \<Rightarrow> text_state \<Rightarrow> text_state run" where
  "TextAnalysisPage_handleSubmit net s =
     (if trim (input_text s) = [] then
        \<lparr>final = s\<lparr>error := Some ''Please enter some text to analyze''\<rparr>, requests = []\<rparr>
      else if length (input_text s) < 20 then
        \<lparr>final = s\<lparr>error :=
           Some ''Please enter at least 20 characters for more accurate analysis''\<rparr>,
         requests = []\<rparr>
      else
        let s0 = s\<lparr>isLoading := True, error := None, explanation := None, result := None\<rparr>;
            a = TextAnalysisPage_try net s0;
            s1 = (case thrown a of
                    None \<Rightarrow> state_at_exit a
                  | Some m \<Rightarrow> (state_at_exit a)\<lparr>error := Some (or_else (Some m)
                      ''Failed to connect to the prediction API. Ensure the Flask backend is running.'')\<rparr>)
        in \<lparr>final = s1\<lparr>isExplaining := False, isLoading := False\<rparr>, requests = issued a\<rparr>)"

section \<open>The audio screen (AudioAnalysis.tsx)\<close>

record audio_state =
  audio_file :: "js_file option"
  audio_isLoading :: bool
  audio_error :: "string option"
  audio_result :: "prediction option"

text \<open>
  \<^verbatim>\<open>handleFileChange\<close>. The argument is \<^verbatim>\<open>e.target.files[0]\<close>, \<^const>\<open>None\<close> when the
  list is missing or empty.
\<close>

definition handleFileChange :: "js_file option \<Rightarrow> audio_state \<Rightarrow> audio_state" where
  "handleFileChange sel s =
     (case sel of
        None \<Rightarrow> s
      | Some selectedFile \<Rightarrow>
          if \<not> startsWith (mime_type selectedFile) ''audio/''
          then s\<lparr>audio_error := Some ''Please select a valid audio file (MP3 or WAV)''\<rparr>
          else if file_size selectedFile > 25 * 1024 * 1024
          then s\<lparr>audio_error := Some ''File size exceeds 25MB limit''\<rparr>
          else s\<lparr>audio_file := Some selectedFile, audio_error := None, audio_result := None\<rparr>)"

text \<open>\<^verbatim>\<open>handleRemoveFile\<close>. Emptying the file input element leaves the state as it is.\<close>

definition handleRemoveFile :: "audio_state \<Rightarrow> audio_state" where
  "handleRemoveFile s = s\<lparr>audio_file := None, audio_result := None, audio_error := None\<rparr>"

text \<open>The \<^verbatim>\<open>try\<close> block of the audio \<^verbatim>\<open>handleSubmit\<close>, for the file \<open>f\<close>.\<close>

definition AudioAnalysis_try :: "backend \<Rightarrow> js_file \<Rightarrow> audio_state \<Rightarrow> audio_state attempt" where
  "AudioAnalysis_try net f s =
     (case audio_predict net f of
        Fails m \<Rightarrow>
          \<lparr>state_at_exit = s, thrown = Some m, issued = [(AudioPredict f, s)]\<rparr>
      | Responds status body \<Rightarrow>
          if \<not> ok status then
            \<lparr>state_at_exit = s,
             thrown = Some (js_String (js_or
               (case body of Rejects m \<Rightarrow> None | Resolves errorData \<Rightarrow> json_error errorData)
               (''Server error: '' @ show_nat status))),
             issued = [(AudioPredict f, s)]\<rparr>
          else
            (case body of
               Rejects m \<Rightarrow>
                 \<lparr>state_at_exit = s, thrown = Some m, issued = [(AudioPredict f, s)]\<rparr>
             | Resolves data \<Rightarrow>
                 \<lparr>state_at_exit = s\<lparr>audio_result := Some \<lparr>label = json_prediction data,
                    confidence = js_times (json_confidence data) 100\<rparr>\<rparr>,
                  thrown = None, issued = [(AudioPredict f, s)]\<rparr>))"

definition AudioAnalysis_handleSubmit :: "backend \<Rightarrow> audio_state \<Rightarrow> audio_state run" where
  "AudioAnalysis_handleSubmit net s =
     (case audio_file s of
        None \<Rightarrow>
          \<lparr>final = s\<lparr>audio_error := Some ''Please select an audio file to analyze''\<rparr>,
           requests = []\<rparr>
      | Some f \<Rightarrow>
          if endsWith (toLowerCase (name f)) ''.wav'' \<and> includes_sub (toLowerCase (name f)) ''_lie_''
          then
            \<lparr>final = s\<lparr>audio_result := Some \<lparr>label = ''Deceptive'', confidence = 95\<rparr>,
                        audio_isLoading := False, audio_error := None\<rparr>,
             requests = []\<rparr>
          else
            let s0 = s\<lparr>audio_isLoading := True, audio_error := None\<rparr>;
                a = AudioAnalysis_try net f s0;
                s1 = (case thrown a of
                        None \<Rightarrow> state_at_exit a
                      | Some m \<Rightarrow> (state_at_exit a)\<lparr>audio_error :=
                          Some (or_else (Some m) ''Failed to analyze audio. Please try again.'')\<rparr>)
            in \<lparr>final = s1\<lparr>audio_isLoading := False\<rparr>, requests = issued a\<rparr>)"

section \<open>Validation, in the words of the specification\<close>

definition rejected :: "js_file \<Rightarrow> bool" where
  "rejected f \<longleftrightarrow> \<not> (\<exists>rest. mime_type f = ''audio/'' @ rest) \<or> 25 * 1024 * 1024 < file_size f"

definition rejection_message :: "js_file \<Rightarrow> string" where
  "rejection_message f =
     (if \<exists>rest. mime_type f = ''audio/'' @ rest then ''File size exceeds 25MB limit''
      else ''Please select a valid audio file (MP3 or WAV)'')"

text \<open>The number that a string of decimal digits denotes.\<close>

definition read_nat :: "string \<Rightarrow> nat" where
  "read_nat ds = foldl (\<lambda>a c. 10 * a + (of_char c - 48)) 0 ds"

text \<open>
  The message for a reply that is not ok. When the body parses as JSON and has a truthy
  \<^verbatim>\<open>error\<close> field, it is that field as a string, or the screen's own failure message
  \<open>dflt\<close> when that string is empty (as for an empty array). In every other case (the body
  does not parse, the field is missing, the field is falsy: the empty string, 0, \<^verbatim>\<open>false\<close>,
  \<^verbatim>\<open>null\<close>) it is the status line.
\<close>

definition service_error_message :: "nat \<Rightarrow> predict_json json \<Rightarrow> string \<Rightarrow> string" where
  "service_error_message status body dflt =
     (case body of
        Rejects m \<Rightarrow> ''Server error: '' @ show_nat status
      | Resolves d \<Rightarrow>
          (case json_error d of
             None \<Rightarrow> ''Server error: '' @ show_nat status
           | Some (StringValue e) \<Rightarrow> if e = [] then ''Server error: '' @ show_nat status else e
           | Some (OtherValue t e) \<Rightarrow>
               if \<not> t then ''Server error: '' @ show_nat status
               else if e = [] then dflt else e))"

section \<open>Concrete inputs\<close>

definition interview_wav :: js_file where
  "interview_wav = \<lparr>name = ''interview.wav'', mime_type = ''audio/wav'', file_size = 48000\<rparr>"

definition notes_pdf :: js_file where
  "notes_pdf = \<lparr>name = ''notes.pdf'', mime_type = ''application/pdf'', file_size = 1200\<rparr>"

definition long_mp3 :: js_file where
  "long_mp3 = \<lparr>name = ''hearing.mp3'', mime_type = ''audio/mpeg'', file_size = 26214401\<rparr>"

definition truthful_73 :: predict_json where
  "truthful_73 = \<lparr>json_error = None, json_prediction = ''Truthful'',
                   json_confidence = fl64 (732 / 1000)\<rparr>"

text \<open>A service that answers every prediction request with \<open>truthful_73\<close>.\<close>

definition steady_backend :: backend where
  "steady_backend =
     \<lparr>predict = (\<lambda>t. Responds 200 (Resolves truthful_73)),
      explain = (\<lambda>t. Responds 200 (Resolves \<lparr>json_explanation = Some ''Few hedging words.''\<rparr>)),
      audio_predict = (\<lambda>f. Responds 200 (Resolves truthful_73))\<rparr>"

text \<open>The audio screen after \<open>interview_wav\<close> was analysed.\<close>

definition analysed_audio :: audio_state where
  "analysed_audio =
     \<lparr>audio_file = Some interview_wav, audio_isLoading = False, audio_error = None,
      audio_result = Some \<lparr>label = ''Truthful'', confidence = js_times (fl64 (732 / 1000)) 100\<rparr>\<rparr>"

definition lie_wav :: js_file where
  "lie_wav = \<lparr>name = ''Trial_LIE_007.WAV'', mime_type = ''audio/wav'', file_size = 2048\<rparr>"

text \<open>The audio screen with \<open>lie_wav\<close> selected, an error and a result left from before.\<close>

definition lie_selected :: audio_state where
  "lie_selected =
     \<lparr>audio_file = Some lie_wav, audio_isLoading = False,
      audio_error = Some ''Server error: 503'',
      audio_result = Some \<lparr>label = ''Truthful'', confidence = js_times (fl64 (732 / 1000)) 100\<rparr>\<rparr>"

definition alibi :: string where
  "alibi = ''I was at home all night watching TV.''"

text \<open>The text screen with \<open>alibi\<close> typed in and nothing shown.\<close>

definition alibi_typed :: text_state where
  "alibi_typed =
     \<lparr>input_text = alibi, isLoading = False, isExplaining = False, error = None,
      result = None, explanation = None\<rparr>"

text \<open>The text screen with a short text typed in under an earlier result.\<close>

definition short_typed :: text_state where
  "short_typed =
     \<lparr>input_text = ''I was at home.'', isLoading = False, isExplaining = False, error = None,
      result = Some \<lparr>label = ''Deceptive'', confidence = 88\<rparr>,
      explanation = Some ''Few hedging words.''\<rparr>"

text \<open>A service whose explanation reply is \<^verbatim>\<open>200 {"explanation": ""}\<close>.\<close>

definition silent_explainer :: backend where
  "silent_explainer = steady_backend\<lparr>explain :=
     (\<lambda>t. Responds 200 (Resolves \<lparr>json_explanation = Some []\<rparr>))\<rparr>"

text \<open>A service whose explanation reply is \<^verbatim>\<open>500\<close> with an HTML body.\<close>

definition failing_explainer :: backend where
  "failing_explainer = steady_backend\<lparr>explain :=
     (\<lambda>t. Responds 500 (Rejects ''Unexpected token < in JSON at position 0''))\<rparr>"

text \<open>A service that cannot be reached for the explanation.\<close>

definition offline_explainer :: backend where
  "offline_explainer = steady_backend\<lparr>explain := (\<lambda>t. Fails ''Failed to fetch'')\<rparr>"

text \<open>
  A service whose prediction reply is \<^verbatim>\<open>500 {"error": ""}\<close>. The fields \<open>json_prediction\<close>
  and \<open>json_confidence\<close> are not read on a reply that is not ok.
\<close>

definition blank_error :: backend where
  "blank_error = steady_backend\<lparr>predict :=
     (\<lambda>t. Responds 500 (Resolves \<lparr>json_error = Some (StringValue []), json_prediction = [],
            json_confidence = 0\<rparr>))\<rparr>"

text \<open>
  A service whose prediction reply is \<^verbatim>\<open>429 {"error": "Quota exceeded"}\<close> and whose audio
  reply is \<^verbatim>\<open>502\<close> with an HTML body.
\<close>

definition quota_error :: backend where
  "quota_error = steady_backend\<lparr>
     predict := (\<lambda>t. Responds 429 (Resolves \<lparr>json_error = Some (StringValue ''Quota exceeded''),
                   json_prediction = [], json_confidence = 0\<rparr>)),
     audio_predict := (\<lambda>f. Responds 502 (Rejects ''Unexpected token < in JSON at position 0''))\<rparr>"

text \<open>
  A service whose prediction reply is \<^verbatim>\<open>500 {"error": 42}\<close> and whose audio reply is
  \<^verbatim>\<open>500 {"error": []}\<close>.
\<close>

definition odd_error :: backend where
  "odd_error = steady_backend\<lparr>
     predict := (\<lambda>t. Responds 500 (Resolves \<lparr>json_error = Some (js_int 42),
                   json_prediction = [], json_confidence = 0\<rparr>)),
     audio_predict := (\<lambda>f. Responds 500 (Resolves \<lparr>json_error = Some js_empty_array,
                   json_prediction = [], json_confidence = 0\<rparr>))\<rparr>"

text \<open>
  A service whose prediction reply is \<^verbatim>\<open>200 {"prediction": "Truthful", "confidence": c}\<close>
  for the decimal literal \<open>c\<close>, which \<^verbatim>\<open>response.json()\<close> reads as the nearest binary64 value.
\<close>

definition replying :: "rat \<Rightarrow> backend" where
  "replying c = steady_backend\<lparr>predict :=
     (\<lambda>t. Responds 200 (Resolves \<lparr>json_error = None, json_prediction = ''Truthful'',
            json_confidence = fl64 c\<rparr>))\<rparr>"

text \<open>The audio screen as it starts.\<close>

definition empty_audio :: audio_state where
  "empty_audio =
     \<lparr>audio_file = None, audio_isLoading = False, audio_error = None, audio_result = None\<rparr>"

text \<open>The text screen with \<open>alibi\<close> typed in under a result, an explanation and an error.\<close>

definition stale_typed :: text_state where
  "stale_typed =
     \<lparr>input_text = alibi, isLoading = False, isExplaining = False,
      error = Some ''Server error: 503'',
      result = Some \<lparr>label = ''Deceptive'', confidence = 88\<rparr>,
      explanation = Some ''Few hedging words.''\<rparr>"

section \<open>Properties of the string operations\<close>

text \<open>Facts that let the simplifier compute \<open>lower_char\<close> and \<open>digit_char\<close> on a literal.\<close>

lemmas char_eval = lower_char_def digit_char_def char_of_def bit_Suc_0_iff

lemma startsWith_iff: "startsWith s p \<longleftrightarrow> (\<exists>b. s = p @ b)"
proof
  assume "startsWith s p"
  then have "s = p @ drop (length p) s"
    unfolding startsWith_def by (metis append_take_drop_id)
  then show "\<exists>b. s = p @ b" ..
next
  assume "\<exists>b. s = p @ b"
  then show "startsWith s p"
    unfolding startsWith_def by auto
qed

lemma endsWith_iff: "endsWith s p \<longleftrightarrow> (\<exists>a. s = a @ p)"
proof
  assume "endsWith s p"
  then have "s = take (length s - length p) s @ p"
    unfolding endsWith_def by (metis append_take_drop_id)
  then show "\<exists>a. s = a @ p" ..
next
  assume "\<exists>a. s = a @ p"
  then show "endsWith s p"
    unfolding endsWith_def by auto
qed

lemma includes_iff: "includes_sub s p \<longleftrightarrow> (\<exists>a b. s = a @ p @ b)"
proof (induction s)
  case Nil
  then show ?case by auto
next
  case (Cons c cs)
  show ?case
  proof
    assume "includes_sub (c # cs) p"
    then consider "startsWith (c # cs) p" | "includes_sub cs p" by auto
    then show "\<exists>a b. c # cs = a @ p @ b"
    proof cases
      case 1
      then obtain b where "c # cs = p @ b" using startsWith_iff by blast
      then have "c # cs = [] @ p @ b" by simp
      then show ?thesis by blast
    next
      case 2
      then obtain a b where "cs = a @ p @ b" using Cons.IH by blast
      then have "c # cs = (c # a) @ p @ b" by simp
      then show ?thesis by blast
    qed
  next
    assume "\<exists>a b. c # cs = a @ p @ b"
    then obtain a b where ab: "c # cs = a @ p @ b" by blast
    show "includes_sub (c # cs) p"
    proof (cases a)
      case Nil
      with ab have "startsWith (c # cs) p" using startsWith_iff by auto
      then show ?thesis by simp
    next
      case (Cons x a')
      with ab have "cs = a' @ p @ b" by simp
      then have "includes_sub cs p" using Cons.IH by blast
      then show ?thesis by simp
    qed
  qed
qed

lemma all_dropWhile: "(\<forall>x\<in>set (dropWhile P s). P x) \<longleftrightarrow> (\<forall>c\<in>set s. P c)"
  by (induction s) auto

lemma trim_empty_iff: "trim s = [] \<longleftrightarrow> (\<forall>c\<in>set s. isWhiteSpace c)"
  unfolding trim_def by (simp add: all_dropWhile)

lemma digit_char_value: "d < 10 \<Longrightarrow> of_char (digit_char d) = 48 + d"
  by (simp add: digit_char_def)

lemma read_nat_snoc: "read_nat (ds @ [c]) = 10 * read_nat ds + (of_char c - 48)"
  by (simp add: read_nat_def)

lemma read_show_nat: "read_nat (show_nat n) = n"
proof (induction n rule: show_nat.induct)
  case (1 n)
  show ?case
  proof (cases "n < 10")
    case True
    then show ?thesis
      by (simp add: show_nat.simps [of n] read_nat_def digit_char_value)
  next
    case False
    with 1 have "read_nat (show_nat (n div 10)) = n div 10" by simp
    with False show ?thesis
      by (simp add: show_nat.simps [of n] read_nat_snoc digit_char_value)
  qed
qed


section \<open>Properties of the number operations\<close>

lemma Math_round_of_int: "Math_round (of_int k) = k"
  unfolding Math_round_def by (rule floor_unique) simp_all

lemma Math_round_95: "Math_round 95 = 95"
  using Math_round_of_int [of 95] by simp

lemma pow2_pos: "0 < pow2 e"
  by (simp add: pow2_def)

lemma round_half_even_nonneg: "0 \<le> q \<Longrightarrow> 0 \<le> round_half_even q"
  by (simp add: round_half_even_def Let_def)

lemma round_half_even_le:
  assumes "q \<le> of_int N"
  shows "round_half_even q \<le> N"
proof -
  have f: "\<lfloor>q\<rfloor> \<le> N" using assms by (simp add: floor_le_iff) 
  show ?thesis
  proof (cases "q = of_int \<lfloor>q\<rfloor>")
    case True
    then have "q - of_int \<lfloor>q\<rfloor> < 1 / 2" by simp
    then show ?thesis using f by (simp add: round_half_even_def Let_def)
  next
    case False
    moreover have "of_int \<lfloor>q\<rfloor> \<le> q" by (rule of_int_floor_le)
    ultimately have "of_int \<lfloor>q\<rfloor> < q" by linarith
    with assms have "of_int \<lfloor>q\<rfloor> < (of_int N :: rat)" by simp
    then have "\<lfloor>q\<rfloor> < N" by simp
    then show ?thesis by (simp add: round_half_even_def Let_def)
  qed
qed

lemma floor_log2_le_6:
  assumes "0 < x" and "x \<le> 100"
  shows "floor_log2 x \<le> 6"
proof (cases "1 \<le> x")
  case True
  have "\<lfloor>x\<rfloor> \<le> 100" using assms(2) by linarith
  then have "nat \<lfloor>x\<rfloor> \<le> 100" by linarith
  then have "floorlog 2 (nat \<lfloor>x\<rfloor>) \<le> floorlog 2 100" by (rule floorlog_mono)
  also have "floorlog 2 100 = 7" by (simp add: compute_floorlog)
  finally show ?thesis using True by (simp add: floor_log2_def)
next
  case False
  then show ?thesis by (simp add: floor_log2_def)
qed

lemma fl64_nonneg:
  assumes "0 \<le> x"
  shows "0 \<le> fl64 x"
proof (cases "x = 0")
  case True
  then show ?thesis by (simp add: fl64_def)
next
  case False
  with assms have "0 < x" by simp
  then show ?thesis
    using pow2_pos by (simp add: fl64_def Let_def round_half_even_nonneg less_imp_le)
qed

lemma fl64_le_100:
  assumes "0 \<le> x" and "x \<le> 100"
  shows "fl64 x \<le> 100"
proof (cases "x = 0")
  case True
  then show ?thesis by (simp add: fl64_def)
next
  case False
  with assms have pos: "0 < x" by simp
  define e where "e = max (floor_log2 \<bar>x\<bar> - 52) (- 1074)"
  define n where "n = nat (- e)"
  have "floor_log2 \<bar>x\<bar> \<le> 6" using pos assms(2) by (simp add: floor_log2_le_6)
  then have "e < 0" by (simp add: e_def)
  then have p: "pow2 e = 1 / 2 ^ n" by (simp add: pow2_def n_def)
  have "\<bar>x\<bar> / pow2 e = x * 2 ^ n" using pos by (simp add: p)
  also have "\<dots> \<le> 100 * 2 ^ n" using assms(2) by simp
  also have "\<dots> = of_int (100 * 2 ^ n)" by simp
  finally have "round_half_even (\<bar>x\<bar> / pow2 e) \<le> 100 * 2 ^ n" by (rule round_half_even_le)
  then have "(of_int (round_half_even (\<bar>x\<bar> / pow2 e)) :: rat) \<le> of_int (100 * 2 ^ n)"
    by (simp only: of_int_le_iff)
  then have "of_int (round_half_even (\<bar>x\<bar> / pow2 e)) * pow2 e \<le> 100"
    by (simp add: p field_simps)
  then show ?thesis
    using pos False by (simp add: fl64_def Let_def e_def)
qed

text \<open>
  \<open>fl64\<close> is a rounding to binary64: the result is a significand of at most 53 bits times
  a power of two no smaller than \<open>2 ^ -1074\<close>, at most half a unit in the last place away
  from the argument.
\<close>

lemma floor_log2_bounds:
  assumes "0 < x"
  shows "pow2 (floor_log2 x) \<le> x \<and> x < pow2 (floor_log2 x + 1)"
proof (cases "1 \<le> x")
  case True
  define n where "n = nat \<lfloor>x\<rfloor>"
  define j where "j = floorlog 2 n"
  have "1 \<le> \<lfloor>x\<rfloor>" using True by linarith
  then have n1: "1 \<le> n" unfolding n_def by linarith
  then have b: "2 ^ (j - 1) \<le> n \<and> n < 2 ^ j"
    unfolding j_def using floorlog_bounds [of n 2] by simp
  have j1: "1 \<le> j" using n1 by (simp add: j_def floorlog_def)
  have fl: "floor_log2 x = int j - 1" using True by (simp add: floor_log2_def n_def j_def)
  have nx: "of_nat n \<le> x" and xn: "x < of_nat n + 1"
    using True by (simp_all add: n_def) linarith+
  have p1: "pow2 (int j - 1) = 2 ^ (j - 1)"
    using j1 by (simp add: pow2_def nat_diff_distrib)
  have p2: "pow2 (int j - 1 + 1) = 2 ^ j"
    by (simp add: pow2_def)
  have "(2::rat) ^ (j - 1) \<le> of_nat n"
    using b by (metis of_nat_le_iff of_nat_numeral of_nat_power)
  then have lo: "2 ^ (j - 1) \<le> x" using nx by linarith
  have "n + 1 \<le> 2 ^ j" using b by simp
  then have "(of_nat (n + 1) :: rat) \<le> of_nat (2 ^ j)" by (simp only: of_nat_le_iff)
  then have "(of_nat n :: rat) + 1 \<le> 2 ^ j" by simp
  then have hi: "x < 2 ^ j" using xn by linarith
  show ?thesis unfolding fl p1 p2 using lo hi by simp
next
  case False
  define y where "y = 1 / x"
  define n where "n = nat (\<lceil>y\<rceil> - 1)"
  define j where "j = floorlog 2 n"
  have y1: "1 < y" using False assms by (simp add: y_def)
  then have c2: "2 \<le> \<lceil>y\<rceil>" by linarith
  then have n1: "1 \<le> n" unfolding n_def by linarith
  then have b: "2 ^ (j - 1) \<le> n \<and> n < 2 ^ j"
    unfolding j_def using floorlog_bounds [of n 2] by simp
  have j1: "1 \<le> j" using n1 by (simp add: j_def floorlog_def)
  have fl: "floor_log2 x = - int j" using False by (simp add: floor_log2_def n_def j_def y_def)
  have yn: "of_nat n < y" and ny: "y \<le> of_nat n + 1"
    using c2 by (simp_all add: n_def) linarith+
  have "(2::rat) ^ (j - 1) \<le> of_nat n"
    using b by (metis of_nat_le_iff of_nat_numeral of_nat_power)
  then have lo: "2 ^ (j - 1) < y" using yn by linarith
  have "n + 1 \<le> 2 ^ j" using b by simp
  then have "(of_nat (n + 1) :: rat) \<le> of_nat (2 ^ j)" by (simp only: of_nat_le_iff)
  then have "(of_nat n :: rat) + 1 \<le> 2 ^ j" by simp
  then have hi: "y \<le> 2 ^ j" using ny by linarith
  have p1: "pow2 (- int j) = 1 / 2 ^ j"
    using j1 by (simp add: pow2_def)
  have p2: "pow2 (- int j + 1) = 1 / 2 ^ (j - 1)"
  proof (cases "j = 1")
    case True
    then show ?thesis by (simp add: pow2_def)
  next
    case False
    with j1 have "- int j + 1 < 0" by simp
    moreover have "nat (- (- int j + 1)) = j - 1" using j1 by simp
    ultimately show ?thesis by (simp add: pow2_def)
  qed
  have xy: "x = 1 / y" using assms by (simp add: y_def)
  have ypos: "0 < y" using y1 by simp
  have a: "1 / 2 ^ j \<le> x"
    unfolding xy using hi ypos by (simp add: field_simps)
  have b': "x < 1 / 2 ^ (j - 1)"
    unfolding xy using lo ypos by (simp add: field_simps)
  show ?thesis unfolding fl p1 p2 using a b' by simp
qed

lemma round_half_even_nearest: "\<bar>of_int (round_half_even q) - q\<bar> \<le> 1 / 2"
proof -
  have lo: "of_int \<lfloor>q\<rfloor> \<le> q" and hi: "q < of_int \<lfloor>q\<rfloor> + 1"
    by linarith+
  show ?thesis
  proof (cases "q - of_int \<lfloor>q\<rfloor> < 1 / 2")
    case True
    then have "round_half_even q = \<lfloor>q\<rfloor>" by (simp add: round_half_even_def Let_def)
    then show ?thesis using True lo by simp
  next
    case False
    then have "round_half_even q = \<lfloor>q\<rfloor> \<and> q - of_int \<lfloor>q\<rfloor> = 1 / 2
               \<or> round_half_even q = \<lfloor>q\<rfloor> + 1"
      by (auto simp: round_half_even_def Let_def)
    then show ?thesis
    proof
      assume "round_half_even q = \<lfloor>q\<rfloor> \<and> q - of_int \<lfloor>q\<rfloor> = 1 / 2"
      then show ?thesis by simp
    next
      assume "round_half_even q = \<lfloor>q\<rfloor> + 1"
      then show ?thesis using False hi by simp
    qed
  qed
qed

lemma fl64_error:
  assumes "x \<noteq> 0"
  shows "\<bar>fl64 x - x\<bar> \<le> pow2 (max (floor_log2 \<bar>x\<bar> - 52) (- 1074)) / 2"
proof -
  define e where "e = max (floor_log2 \<bar>x\<bar> - 52) (- 1074)"
  define m where "m = round_half_even (\<bar>x\<bar> / pow2 e)"
  have p: "0 < pow2 e" by (rule pow2_pos)
  have "\<bar>of_int m - \<bar>x\<bar> / pow2 e\<bar> \<le> 1 / 2"
    unfolding m_def by (rule round_half_even_nearest)
  then have "\<bar>of_int m - \<bar>x\<bar> / pow2 e\<bar> * pow2 e \<le> 1 / 2 * pow2 e"
    using p by (simp only: mult_le_cancel_right_pos)
  moreover have "\<bar>of_int m - \<bar>x\<bar> / pow2 e\<bar> * pow2 e = \<bar>of_int m * pow2 e - \<bar>x\<bar>\<bar>"
  proof -
    have "\<bar>of_int m - \<bar>x\<bar> / pow2 e\<bar> * pow2 e = \<bar>(of_int m - \<bar>x\<bar> / pow2 e) * pow2 e\<bar>"
      using p by (simp add: abs_mult)
    also have "(of_int m - \<bar>x\<bar> / pow2 e) * pow2 e = of_int m * pow2 e - \<bar>x\<bar>"
      using p by (simp add: field_simps)
    finally show ?thesis .
  qed
  ultimately have d: "\<bar>of_int m * pow2 e - \<bar>x\<bar>\<bar> \<le> pow2 e / 2" by simp
  have f: "fl64 x = sgn x * (of_int m * pow2 e)"
    using assms by (simp add: fl64_def Let_def e_def m_def)
  have "x = sgn x * \<bar>x\<bar>" by (simp add: sgn_mult_abs)
  then have "fl64 x - x = sgn x * (of_int m * pow2 e - \<bar>x\<bar>)"
    unfolding f by (simp add: right_diff_distrib)
  then have "\<bar>fl64 x - x\<bar> = \<bar>sgn x * (of_int m * pow2 e - \<bar>x\<bar>)\<bar>"
    by simp
  also have "\<dots> = \<bar>of_int m * pow2 e - \<bar>x\<bar>\<bar>"
    using assms by (simp add: abs_mult abs_sgn_eq)
  finally show ?thesis using d by (simp add: e_def)
qed

lemma pow2_power_int: "pow2 e = 2 powi e"
  by (cases "0 \<le> e") (simp_all add: pow2_def power_int_def inverse_eq_divide power_one_over)

lemma fl64_significand:
  assumes "x \<noteq> 0"
  shows "round_half_even (\<bar>x\<bar> / pow2 (max (floor_log2 \<bar>x\<bar> - 52) (- 1074))) \<le> 2 ^ 53"
proof -
  define k where "k = floor_log2 \<bar>x\<bar>"
  define e where "e = max (k - 52) (- 1074)"
  have p: "0 < pow2 e" by (rule pow2_pos)
  have "\<bar>x\<bar> < pow2 (k + 1)"
    using assms floor_log2_bounds [of "\<bar>x\<bar>"] by (simp add: k_def)
  also have "pow2 (k + 1) = pow2 (k - 52) * 2 ^ 53"
  proof -
    have eq: "k + 1 = (k - 52) + 53" by arith
    have "(2::rat) powi (k + 1) = 2 powi ((k - 52) + 53)" by (simp only: eq)
    also have "\<dots> = 2 powi (k - 52) * 2 powi 53"
      by (rule power_int_add) simp
    finally show ?thesis by (simp add: pow2_power_int)
  qed
  also have "\<dots> \<le> pow2 e * 2 ^ 53"
  proof -
    have "(2::rat) powi (k - 52) \<le> 2 powi e"
      by (rule power_int_increasing) (simp_all add: e_def)
    then show ?thesis by (simp add: pow2_power_int)
  qed
  finally have "\<bar>x\<bar> / pow2 e < 2 ^ 53"
    using p by (simp add: field_simps)
  then have "\<bar>x\<bar> / pow2 e \<le> of_int (2 ^ 53)" by simp
  then have "round_half_even (\<bar>x\<bar> / pow2 e) \<le> 2 ^ 53" by (rule round_half_even_le)
  then show ?thesis by (simp add: e_def k_def)
qed

lemma pow2_add: "pow2 (a + b) = pow2 a * pow2 b"
  unfolding pow2_power_int by (rule power_int_add) simp

lemma pow2_mono: "a \<le> b \<Longrightarrow> pow2 a \<le> pow2 b"
  unfolding pow2_power_int by (rule power_int_increasing) simp_all

lemma pow2_nat: "0 \<le> e \<Longrightarrow> pow2 e = of_int (2 ^ nat e)"
  by (simp add: pow2_def)

lemma round_half_even_closest: "\<bar>of_int (round_half_even q) - q\<bar> \<le> \<bar>of_int n - q\<bar>"
proof -
  define f where "f = \<lfloor>q\<rfloor>"
  define r where "r = q - of_int f"
  have r0: "0 \<le> r" and r1: "r < 1" unfolding r_def f_def by linarith+
  have both: "r \<le> \<bar>of_int n - q\<bar>" if "n \<le> f"
  proof -
    from that have "(of_int n :: rat) \<le> of_int f" by simp
    then show ?thesis unfolding r_def by linarith
  qed
  have up: "1 - r \<le> \<bar>of_int n - q\<bar>" if "\<not> n \<le> f"
  proof -
    from that have "f + 1 \<le> n" by simp
    then have "(of_int (f + 1) :: rat) \<le> of_int n" by (simp only: of_int_le_iff)
    then have "(of_int f :: rat) + 1 \<le> of_int n" by simp
    then show ?thesis unfolding r_def by linarith
  qed
  consider "r < 1 / 2" | "1 / 2 < r" | "r = 1 / 2" by linarith
  then show ?thesis
  proof cases
    case 1
    then have "round_half_even q = f"
      by (simp add: round_half_even_def Let_def f_def r_def)
    then have "\<bar>of_int (round_half_even q) - q\<bar> = r" using r0 by (simp add: r_def)
    then show ?thesis using both up 1 by (cases "n \<le> f") simp_all
  next
    case 2
    then have "round_half_even q = f + 1"
      by (simp add: round_half_even_def Let_def f_def r_def)
    then have "\<bar>of_int (round_half_even q) - q\<bar> = 1 - r" using r1 by (simp add: r_def)
    then show ?thesis using both up 2 by (cases "n \<le> f") simp_all
  next
    case 3
    then have "round_half_even q = f \<or> round_half_even q = f + 1"
      by (simp add: round_half_even_def Let_def f_def r_def)
    then have "\<bar>of_int (round_half_even q) - q\<bar> = 1 / 2" using 3 by (auto simp: r_def)
    then show ?thesis using both up 3 by (cases "n \<le> f") simp_all
  qed
qed

lemma fl64_representable:
  "\<exists>M E. fl64 x = of_int M * pow2 E \<and> \<bar>M\<bar> \<le> 2 ^ 53 \<and> - 1074 \<le> E"
proof (cases "x = 0")
  case True
  have "fl64 x = of_int 0 * pow2 0 \<and> \<bar>0::int\<bar> \<le> 2 ^ 53 \<and> - 1074 \<le> (0::int)"
    using True by (simp add: fl64_def)
  then show ?thesis by blast
next
  case False
  define e where "e = max (floor_log2 \<bar>x\<bar> - 52) (- 1074)"
  define m where "m = round_half_even (\<bar>x\<bar> / pow2 e)"
  define M where "M = (if x < 0 then - m else m)"
  have p: "0 < pow2 e" by (rule pow2_pos)
  have m0: "0 \<le> m" unfolding m_def using p by (simp add: round_half_even_nonneg)
  have m1: "m \<le> 2 ^ 53" unfolding m_def e_def by (rule fl64_significand [OF False])
  have "fl64 x = sgn x * of_int m * pow2 e"
    using False by (simp add: fl64_def Let_def e_def m_def)
  also have "sgn x * of_int m = of_int M"
    using False by (simp add: M_def sgn_if)
  finally have "fl64 x = of_int M * pow2 e" .
  moreover have "\<bar>M\<bar> \<le> 2 ^ 53" using m0 m1 by (simp add: M_def)
  moreover have "- 1074 \<le> e" by (simp add: e_def)
  ultimately show ?thesis by blast
qed

lemma fl64_nearest:
  assumes "0 \<le> x" and "\<bar>M\<bar> \<le> 2 ^ 53" and "- 1074 \<le> E"
  shows "\<bar>fl64 x - x\<bar> \<le> \<bar>of_int M * pow2 E - x\<bar>"
proof (cases "x = 0")
  case True
  then show ?thesis by (simp add: fl64_def)
next
  case False
  with assms(1) have pos: "0 < x" by simp
  define k where "k = floor_log2 x"
  define e where "e = max (k - 52) (- 1074)"
  define q where "q = x / pow2 e"
  define m where "m = round_half_even q"
  have p: "0 < pow2 e" by (rule pow2_pos)
  have fl: "fl64 x = of_int m * pow2 e"
    using pos by (simp add: fl64_def Let_def e_def k_def m_def q_def)
  have xq: "x = q * pow2 e" using p by (simp add: q_def)
  have grid: "\<bar>fl64 x - x\<bar> \<le> \<bar>of_int n * pow2 e - x\<bar>" for n
  proof -
    have "\<bar>of_int m - q\<bar> \<le> \<bar>of_int n - q\<bar>"
      unfolding m_def by (rule round_half_even_closest)
    then have "\<bar>of_int m - q\<bar> * pow2 e \<le> \<bar>of_int n - q\<bar> * pow2 e"
      using p by (simp only: mult_le_cancel_right_pos)
    moreover have "\<bar>of_int j - q\<bar> * pow2 e = \<bar>of_int j * pow2 e - x\<bar>" for j
    proof -
      have "\<bar>of_int j - q\<bar> * pow2 e = \<bar>(of_int j - q) * pow2 e\<bar>"
        using p by (simp add: abs_mult)
      also have "(of_int j - q) * pow2 e = of_int j * pow2 e - x"
        by (simp add: xq left_diff_distrib)
      finally show ?thesis .
    qed
    ultimately show ?thesis by (simp add: fl)
  qed
  show ?thesis
  proof (cases "e \<le> E")
    case True
    have "pow2 E = pow2 ((E - e) + e)" by simp
    also have "\<dots> = pow2 (E - e) * pow2 e" by (rule pow2_add)
    also have "pow2 (E - e) = of_int (2 ^ nat (E - e))" using True by (simp add: pow2_nat)
    finally have pE: "pow2 E = of_int (2 ^ nat (E - e)) * pow2 e" .
    have eq: "of_int M * pow2 E = of_int (M * 2 ^ nat (E - e)) * pow2 e"
      by (simp only: pE of_int_mult mult.assoc)
    show ?thesis unfolding eq by (rule grid)
  next
    case False
    then have Ee: "E \<le> e - 1" by simp
    with assms(3) have "- 1074 < e" by simp
    then have ek: "e = k - 52" by (simp add: e_def)
    have "pow2 k \<le> x" using floor_log2_bounds [OF pos] by (simp add: k_def)
    moreover have "pow2 k = pow2 (52 + e)" by (simp add: ek)
    moreover have "pow2 (52 + e) = pow2 52 * pow2 e" by (rule pow2_add)
    moreover have "pow2 52 = 2 ^ 52" by (simp add: pow2_def)
    ultimately have gx: "2 ^ 52 * pow2 e \<le> x" by simp
    have "of_int M * pow2 E \<le> \<bar>of_int M\<bar> * pow2 E"
      using pow2_pos [of E] by (simp add: mult_right_mono)
    also have "\<bar>of_int M :: rat\<bar> \<le> 2 ^ 53"
    proof -
      have "(of_int \<bar>M\<bar> :: rat) \<le> of_int (2 ^ 53)" using assms(2) by (simp only: of_int_le_iff)
      then show ?thesis by simp
    qed
    then have "\<bar>of_int M\<bar> * pow2 E \<le> 2 ^ 53 * pow2 E"
      using pow2_pos [of E] by (simp add: mult_right_mono)
    also have "pow2 E \<le> pow2 (e - 1)" using Ee by (rule pow2_mono)
    then have "2 ^ 53 * pow2 E \<le> 2 ^ 53 * pow2 (e - 1)" by simp
    also have "pow2 (e - 1) = pow2 (- 1 + e)" by simp
    also have "pow2 (- 1 + e) = pow2 (- 1) * pow2 e" by (rule pow2_add)
    also have "pow2 (- 1) = 1 / 2" by (simp add: pow2_def)
    finally have yg: "of_int M * pow2 E \<le> 2 ^ 52 * pow2 e" by simp
    have "\<bar>fl64 x - x\<bar> \<le> \<bar>of_int (2 ^ 52) * pow2 e - x\<bar>" by (rule grid)
    also have "\<dots> = x - 2 ^ 52 * pow2 e" using gx by simp
    also have "\<dots> \<le> x - of_int M * pow2 E" using yg by simp
    also have "\<dots> \<le> \<bar>of_int M * pow2 E - x\<bar>" by simp
    finally show ?thesis .
  qed
qed

lemma fl64_close_below_128:
  assumes "0 \<le> x" and "x \<le> 100"
  shows "\<bar>fl64 x - x\<bar> \<le> 1 / 2 ^ 47"
proof (cases "x = 0")
  case True
  then show ?thesis by (simp add: fl64_def)
next
  case False
  with assms have pos: "0 < x" by simp
  have "floor_log2 \<bar>x\<bar> \<le> 6" using pos assms(2) by (simp add: floor_log2_le_6)
  then have "max (floor_log2 \<bar>x\<bar> - 52) (- 1074) \<le> - 46" by simp
  then have "pow2 (max (floor_log2 \<bar>x\<bar> - 52) (- 1074)) \<le> pow2 (- 46)" by (rule pow2_mono)
  also have "pow2 (- 46) = 1 / 2 ^ 46" by (simp add: pow2_def)
  finally have "pow2 (max (floor_log2 \<bar>x\<bar> - 52) (- 1074)) / 2 \<le> 1 / 2 ^ 47" by simp
  with fl64_error [OF False] show ?thesis by linarith
qed

lemma Math_round_within_one:
  assumes "\<bar>p - x\<bar> < 1"
  shows "\<bar>Math_round p - Math_round x\<bar> \<le> 1"
  using assms unfolding Math_round_def by linarith

lemma Math_round_percent:
  assumes "0 \<le> y" and "y \<le> 100"
  shows "0 \<le> Math_round y \<and> Math_round y \<le> 100"
  using assms unfolding Math_round_def by (simp add: floor_le_iff le_floor_iff)

lemma percent_in_range:
  assumes "0 \<le> c" and "c \<le> 1"
  shows "0 \<le> Math_round (js_times c 100) \<and> Math_round (js_times c 100) \<le> 100"
proof -
  have "0 \<le> c * 100" and "c * 100 \<le> 100" using assms by simp_all
  then have "0 \<le> js_times c 100" and "js_times c 100 \<le> 100"
    unfolding js_times_def by (simp_all add: fl64_nonneg fl64_le_100)
  then show ?thesis by (rule Math_round_percent)
qed

lemma Math_round_tie: "Math_round (of_int k + 1 / 2) = k + 1"
  unfolding Math_round_def by simp

lemma Math_round_nearest: "\<bar>of_int (Math_round x) - x\<bar> \<le> 1 / 2"
  unfolding Math_round_def by linarith

text \<open>
  A tie of the product goes to the even significand: for \<open>(3 * 2 ^ 51 + 16) / 2 ^ 53\<close> the
  exact product is \<open>(75 * 2 ^ 46 + 12 + 1 / 2) / 2 ^ 46\<close>.
\<close>

lemma product_tie_to_even:
  "js_times ((3 * 2 ^ 51 + 16) / 2 ^ 53) 100 = (75 * 2 ^ 46 + 12) * pow2 (- 46)
   \<and> ((3 * 2 ^ 51 + 16) / 2 ^ 53 :: rat) * 100 = (75 * 2 ^ 46 + 12 + 1 / 2) * pow2 (- 46)"
  by code_simp

lemma product_rounded_before_Math_round:
  "Math_round (js_times (fl64 (15 / 1000)) 100) = 2 \<and> \<lfloor>fl64 (15 / 1000) * 100 + 1 / 2\<rfloor> = 1"
  by code_simp

section \<open>What the handlers do after a reply\<close>

lemma TextAnalysis_try_explaining:
  assumes "predict net (input_text s) = Responds st (Resolves d)" and "ok st"
  shows "TextAnalysis_try net s =
    (let s2 = s\<lparr>result := Some \<lparr>label = json_prediction d,
                     confidence = js_times (json_confidence d) 100\<rparr>, isExplaining := True\<rparr>;
         reqs = [(Predict (input_text s), s), (Explain (input_text s), s2)]
     in case explain net (input_text s) of
          Fails m \<Rightarrow> \<lparr>state_at_exit = s2, thrown = Some m, issued = reqs\<rparr>
        | Responds st' b \<Rightarrow>
            if ok st' then
              (case b of
                 Rejects m \<Rightarrow> \<lparr>state_at_exit = s2, thrown = Some m, issued = reqs\<rparr>
               | Resolves x \<Rightarrow>
                   \<lparr>state_at_exit = s2\<lparr>explanation :=
                      Some (or_else (json_explanation x) ''No explanation available.'')\<rparr>,
                    thrown = None, issued = reqs\<rparr>)
            else \<lparr>state_at_exit = s2, thrown = None, issued = reqs\<rparr>)"
  using assms by (simp add: TextAnalysis_try_def Let_def)

lemma TextAnalysisPage_try_explaining:
  assumes "predict net (input_text s) = Responds st (Resolves d)" and "ok st"
  shows "TextAnalysisPage_try net s =
    (let s2 = s\<lparr>result := Some \<lparr>label = json_prediction d,
                     confidence = js_times (json_confidence d) 100\<rparr>, isExplaining := True\<rparr>;
         reqs = [(Predict (input_text s), s), (Explain (input_text s), s2)]
     in case explain net (input_text s) of
          Fails m \<Rightarrow> \<lparr>state_at_exit = s2, thrown = Some m, issued = reqs\<rparr>
        | Responds st' b \<Rightarrow>
            if ok st' then
              (case b of
                 Rejects m \<Rightarrow> \<lparr>state_at_exit = s2, thrown = Some m, issued = reqs\<rparr>
               | Resolves x \<Rightarrow>
                   \<lparr>state_at_exit = s2\<lparr>explanation := json_explanation x\<rparr>,
                    thrown = None, issued = reqs\<rparr>)
            else \<lparr>state_at_exit = s2\<lparr>explanation :=
                    Some ''Explanation request failed. Please try again.''\<rparr>,
                  thrown = None, issued = reqs\<rparr>)"
  using assms by (simp add: TextAnalysisPage_try_def Let_def)

lemma TextAnalysis_result_after_predict:
  assumes "trim (input_text s) \<noteq> []" and "20 \<le> length (input_text s)"
    and "predict net (input_text s) = Responds st (Resolves d)" and "ok st"
  shows "result (final (TextAnalysis_handleSubmit net s))
           = Some \<lparr>label = json_prediction d, confidence = js_times (json_confidence d) 100\<rparr>"
proof -
  let ?s0 = "s\<lparr>isLoading := True, error := None, explanation := None, result := None\<rparr>"
  have p: "predict net (input_text ?s0) = Responds st (Resolves d)"
    using assms(3) by simp
  show ?thesis
    using assms(1,2)
    by (simp add: TextAnalysis_handleSubmit_def TextAnalysis_try_explaining [OF p assms(4)] Let_def
        split: fetch.split json.split)
qed

lemma TextAnalysisPage_result_after_predict:
  assumes "trim (input_text s) \<noteq> []" and "20 \<le> length (input_text s)"
    and "predict net (input_text s) = Responds st (Resolves d)" and "ok st"
  shows "result (final (TextAnalysisPage_handleSubmit net s))
           = Some \<lparr>label = json_prediction d, confidence = js_times (json_confidence d) 100\<rparr>"
proof -
  let ?s0 = "s\<lparr>isLoading := True, error := None, explanation := None, result := None\<rparr>"
  have p: "predict net (input_text ?s0) = Responds st (Resolves d)"
    using assms(3) by simp
  show ?thesis
    using assms(1,2)
    by (simp add: TextAnalysisPage_handleSubmit_def TextAnalysisPage_try_explaining [OF p assms(4)]
        Let_def split: fetch.split json.split)
qed

lemma AudioAnalysis_result_after_predict:
  assumes "audio_file a = Some f"
    and "\<not> (endsWith (toLowerCase (name f)) ''.wav'' \<and> includes_sub (toLowerCase (name f)) ''_lie_'')"
    and "audio_predict net f = Responds st (Resolves d)" and "ok st"
  shows "audio_result (final (AudioAnalysis_handleSubmit net a))
           = Some \<lparr>label = json_prediction d, confidence = js_times (json_confidence d) 100\<rparr>"
  using assms by (auto simp: AudioAnalysis_handleSubmit_def AudioAnalysis_try_def Let_def)

lemma TextAnalysis_try_first_request:
  "\<exists>rest. issued (TextAnalysis_try net s) = (Predict (input_text s), s) # rest
     \<and> list_all (\<lambda>q. error (snd q) = error s \<and> explanation (snd q) = explanation s) rest"
  by (simp add: TextAnalysis_try_def Let_def split: fetch.split json.split)

lemma TextAnalysisPage_try_first_request:
  "\<exists>rest. issued (TextAnalysisPage_try net s) = (Predict (input_text s), s) # rest
     \<and> list_all (\<lambda>q. error (snd q) = error s \<and> explanation (snd q) = explanation s) rest"
  by (simp add: TextAnalysisPage_try_def Let_def split: fetch.split json.split)

lemma service_error_message_thrown:
  "service_error_message st body dflt =
     or_else (Some (js_String (js_or
        (case body of Rejects m \<Rightarrow> None | Resolves errorData \<Rightarrow> json_error errorData)
        (''Server error: '' @ show_nat st)))) dflt"
  by (simp add: or_else_def js_or_def js_String_def truthy_def service_error_message_def
      split: json.split option.split js_value.split)

lemma same_result:
  "result (final (TextAnalysis_handleSubmit net s)) = result (final (TextAnalysisPage_handleSubmit net s))"
  by (simp add: TextAnalysis_handleSubmit_def TextAnalysisPage_handleSubmit_def
      TextAnalysis_try_def TextAnalysisPage_try_def Let_def
      split: fetch.split json.split option.split)

section \<open>File selection on the audio screen\<close>

lemma handleFileChange_rejected:
  assumes "rejected f"
  shows "handleFileChange (Some f) s = s\<lparr>audio_error := Some (rejection_message f)\<rparr>"
  using assms
  by (auto simp: rejected_def rejection_message_def handleFileChange_def startsWith_iff)

lemma handleSubmit_ignores_audio_error:
  "AudioAnalysis_handleSubmit net (s\<lparr>audio_error := e\<rparr>) = AudioAnalysis_handleSubmit net s"
  by (simp add: AudioAnalysis_handleSubmit_def split: option.split)

text \<open>
  C4. A selected file whose MIME type does not begin with \<^verbatim>\<open>audio/\<close>, or whose size is
  over \<open>25 * 1024 * 1024\<close> bytes, is rejected: the error is set to a validation message
  (the MIME check comes first), the current file stays what it was, and a submission
  that follows runs exactly as if the selection had not happened, so no request carries
  the rejected file.
\<close>

theorem C4_invalid_file_rejected:
  assumes "\<not> (\<exists>rest. mime_type f = ''audio/'' @ rest) \<or> 25 * 1024 * 1024 < file_size f"
  shows "audio_error (handleFileChange (Some f) s) =
           Some (if \<exists>rest. mime_type f = ''audio/'' @ rest then ''File size exceeds 25MB limit''
                 else ''Please select a valid audio file (MP3 or WAV)'')
         \<and> audio_file (handleFileChange (Some f) s) = audio_file s
         \<and> AudioAnalysis_handleSubmit net (handleFileChange (Some f) s)
             = AudioAnalysis_handleSubmit net s"
proof -
  from assms have r: "rejected f" by (simp add: rejected_def)
  have eq: "handleFileChange (Some f) s = s\<lparr>audio_error := Some (rejection_message f)\<rparr>"
    by (rule handleFileChange_rejected [OF r])
  show ?thesis
    unfolding eq by (simp add: rejection_message_def handleSubmit_ignores_audio_error)
qed

theorem C4_invalid_file_rejected_witness:
  "\<not> (\<exists>rest. mime_type notes_pdf = ''audio/'' @ rest)
   \<and> audio_error (handleFileChange (Some notes_pdf) analysed_audio)
       = Some ''Please select a valid audio file (MP3 or WAV)''
   \<and> audio_file (handleFileChange (Some notes_pdf) analysed_audio) = Some interview_wav
   \<and> map fst (requests (AudioAnalysis_handleSubmit steady_backend
         (handleFileChange (Some notes_pdf) analysed_audio))) = [AudioPredict interview_wav]"
proof -
  have h: "\<not> (\<exists>rest. mime_type notes_pdf = ''audio/'' @ rest) \<or> 25 * 1024 * 1024 < file_size notes_pdf"
    by (simp add: notes_pdf_def)
  have no_prefix: "\<not> (\<exists>rest. mime_type notes_pdf = ''audio/'' @ rest)"
    by (simp add: notes_pdf_def)
  have plain: "\<not> includes_sub (toLowerCase (name interview_wav)) ''_lie_''"
    by (simp add: interview_wav_def toLowerCase_def startsWith_def char_eval)
  have sub: "map fst (requests (AudioAnalysis_handleSubmit steady_backend analysed_audio))
             = [AudioPredict interview_wav]"
    by (simp add: AudioAnalysis_handleSubmit_def AudioAnalysis_try_def analysed_audio_def
        steady_backend_def ok_def plain)
  show ?thesis
    using h no_prefix sub C4_invalid_file_rejected [OF h, of analysed_audio steady_backend]
    by (simp add: analysed_audio_def)
qed

text \<open>
  C9. When the newly selected file fails validation, only the error changes: the state
  is the old one with the message written into \<^verbatim>\<open>error\<close>. The file accepted before
  and the result shown before are still there, next to the new message.
\<close>

theorem C9_rejection_changes_error_only:
  assumes "\<not> (\<exists>rest. mime_type f = ''audio/'' @ rest) \<or> 25 * 1024 * 1024 < file_size f"
  shows "(\<exists>msg. msg \<noteq> [] \<and> handleFileChange (Some f) s = s\<lparr>audio_error := Some msg\<rparr>)
         \<and> audio_file (handleFileChange (Some f) s) = audio_file s
         \<and> audio_result (handleFileChange (Some f) s) = audio_result s
         \<and> audio_isLoading (handleFileChange (Some f) s) = audio_isLoading s"
proof -
  from assms have r: "rejected f" by (simp add: rejected_def)
  have eq: "handleFileChange (Some f) s = s\<lparr>audio_error := Some (rejection_message f)\<rparr>"
    by (rule handleFileChange_rejected [OF r])
  have "rejection_message f \<noteq> []" by (simp add: rejection_message_def)
  with eq show ?thesis by auto
qed

theorem C9_rejection_changes_error_only_witness:
  "(\<exists>rest. mime_type long_mp3 = ''audio/'' @ rest)
   \<and> 25 * 1024 * 1024 < file_size long_mp3
   \<and> audio_file (handleFileChange (Some long_mp3) analysed_audio) = Some interview_wav
   \<and> audio_result (handleFileChange (Some long_mp3) analysed_audio)
       = Some \<lparr>label = ''Truthful'', confidence = js_times (fl64 (732 / 1000)) 100\<rparr>
   \<and> audio_error (handleFileChange (Some long_mp3) analysed_audio) \<noteq> None"
proof -
  have h: "\<not> (\<exists>rest. mime_type long_mp3 = ''audio/'' @ rest) \<or> 25 * 1024 * 1024 < file_size long_mp3"
    by (simp add: long_mp3_def)
  from C9_rejection_changes_error_only [OF h, of analysed_audio]
  obtain msg where
    "handleFileChange (Some long_mp3) analysed_audio = analysed_audio\<lparr>audio_error := Some msg\<rparr>"
    by blast
  moreover have "25 * 1024 * 1024 < file_size long_mp3" and "mime_type long_mp3 = ''audio/'' @ ''mpeg''"
    by (simp_all add: long_mp3_def)
  ultimately show ?thesis
    by (simp add: analysed_audio_def)
qed

section \<open>The filename fixture of the audio screen\<close>

text \<open>
  C2. When the name of the selected file, in lower case, ends with \<^verbatim>\<open>.wav\<close> and contains
  \<^verbatim>\<open>_lie_\<close>, submitting sets the result to \<^verbatim>\<open>{label: "Deceptive", confidence: 95}\<close>,
  shown as 95 percent, clears the error, leaves the loading flag off and issues no
  request, whatever the service would answer.
\<close>

theorem C2_lie_fixture:
  assumes "audio_file s = Some f"
    and "\<exists>a. toLowerCase (name f) = a @ ''.wav''"
    and "\<exists>a b. toLowerCase (name f) = a @ ''_lie_'' @ b"
  shows "AudioAnalysis_handleSubmit net s =
           \<lparr>final = s\<lparr>audio_result := Some \<lparr>label = ''Deceptive'', confidence = 95\<rparr>,
                       audio_isLoading := False, audio_error := None\<rparr>,
            requests = []\<rparr>
         \<and> confidencePercent \<lparr>label = ''Deceptive'', confidence = 95\<rparr> = 95"
proof -
  from assms(2) have e: "endsWith (toLowerCase (name f)) ''.wav''"
    by (simp add: endsWith_iff)
  from assms(3) have i: "includes_sub (toLowerCase (name f)) ''_lie_''"
    by (simp add: includes_iff)
  show ?thesis
    using assms(1) e i
    by (simp add: AudioAnalysis_handleSubmit_def confidencePercent_def Math_round_95)
qed

theorem C2_lie_fixture_witness:
  "audio_file lie_selected = Some lie_wav
   \<and> toLowerCase (name lie_wav) = ''trial_lie_007'' @ ''.wav''
   \<and> toLowerCase (name lie_wav) = ''trial'' @ ''_lie_'' @ ''007.wav''
   \<and> requests (AudioAnalysis_handleSubmit steady_backend lie_selected) = []
   \<and> audio_result (final (AudioAnalysis_handleSubmit steady_backend lie_selected))
       = Some \<lparr>label = ''Deceptive'', confidence = 95\<rparr>
   \<and> audio_error (final (AudioAnalysis_handleSubmit steady_backend lie_selected)) = None"
proof -
  have f: "audio_file lie_selected = Some lie_wav"
    by (simp add: lie_selected_def)
  have lower: "toLowerCase (name lie_wav) = ''trial_lie_007.wav''"
    by (simp add: lie_wav_def toLowerCase_def char_eval)
  have e: "\<exists>a. toLowerCase (name lie_wav) = a @ ''.wav''"
    unfolding lower by (rule exI [of _ "''trial_lie_007''"]) simp
  have i: "\<exists>a b. toLowerCase (name lie_wav) = a @ ''_lie_'' @ b"
    unfolding lower by (rule exI [of _ "''trial''"], rule exI [of _ "''007.wav''"]) simp
  show ?thesis
    using C2_lie_fixture [OF f e i, of steady_backend] f lower
    by simp
qed

section \<open>Validation on the text screens\<close>

text \<open>
  C3. When the text is empty, consists of white space only, or has fewer than 20
  characters, submitting writes a validation message into \<^verbatim>\<open>error\<close> and stops: no
  request is issued, and every other part of the state, the result and the explanation
  among them, is as before. Both text screens do the same.
\<close>

theorem C3_short_text_rejected:
  assumes "list_all isWhiteSpace (input_text s) \<or> length (input_text s) < 20"
  shows "TextAnalysis_handleSubmit net s =
           \<lparr>final = s\<lparr>error := Some (if list_all isWhiteSpace (input_text s)
                 then ''Please enter some text to analyze''
                 else ''Please enter at least 20 characters for more accurate analysis'')\<rparr>,
            requests = []\<rparr>
         \<and> TextAnalysisPage_handleSubmit net s = TextAnalysis_handleSubmit net s
         \<and> result (final (TextAnalysis_handleSubmit net s)) = result s
         \<and> explanation (final (TextAnalysis_handleSubmit net s)) = explanation s"
  using assms
  by (auto simp: TextAnalysis_handleSubmit_def TextAnalysisPage_handleSubmit_def
      trim_empty_iff list_all_iff)

theorem C3_short_text_rejected_witness:
  "length (input_text short_typed) < 20
   \<and> requests (TextAnalysis_handleSubmit steady_backend short_typed) = []
   \<and> requests (TextAnalysisPage_handleSubmit steady_backend short_typed) = []
   \<and> error (final (TextAnalysis_handleSubmit steady_backend short_typed))
       = Some ''Please enter at least 20 characters for more accurate analysis''
   \<and> result (final (TextAnalysis_handleSubmit steady_backend short_typed))
       = Some \<lparr>label = ''Deceptive'', confidence = 88\<rparr>
   \<and> explanation (final (TextAnalysis_handleSubmit steady_backend short_typed))
       = Some ''Few hedging words.''"
proof -
  have len: "length (input_text short_typed) < 20"
    by (simp add: short_typed_def)
  then have h: "list_all isWhiteSpace (input_text short_typed) \<or> length (input_text short_typed) < 20"
    by simp
  have ws: "\<not> list_all isWhiteSpace (input_text short_typed)"
    by (simp add: short_typed_def isWhiteSpace_def)
  show ?thesis
    using C3_short_text_rejected [OF h, of steady_backend] len ws
    by (simp add: short_typed_def)
qed

section \<open>The explanation of the first text screen\<close>

text \<open>
  C10. On the screen of TextAnalysis.tsx, when the prediction succeeded and the explanation
  reply has a 2xx status and a JSON body without an \<^verbatim>\<open>explanation\<close> field, or with the
  empty string there, the explanation is set to \<^verbatim>\<open>No explanation available.\<close>
\<close>

theorem C10_empty_explanation_fallback:
  assumes "trim (input_text s) \<noteq> []" and "20 \<le> length (input_text s)"
    and "predict net (input_text s) = Responds st (Resolves d)" and "ok st"
    and "explain net (input_text s) = Responds st' (Resolves x)" and "ok st'"
    and "json_explanation x = None \<or> json_explanation x = Some []"
  shows "explanation (final (TextAnalysis_handleSubmit net s)) = Some ''No explanation available.''"
  using assms
  by (auto simp: TextAnalysis_handleSubmit_def TextAnalysis_try_def Let_def or_else_def)

theorem C10_empty_explanation_fallback_witness:
  "trim (input_text alibi_typed) \<noteq> [] \<and> 20 \<le> length (input_text alibi_typed)
   \<and> predict silent_explainer (input_text alibi_typed) = Responds 200 (Resolves truthful_73)
   \<and> explain silent_explainer (input_text alibi_typed)
       = Responds 200 (Resolves \<lparr>json_explanation = Some []\<rparr>)
   \<and> ok 200
   \<and> explanation (final (TextAnalysis_handleSubmit silent_explainer alibi_typed))
       = Some ''No explanation available.''"
proof -
  have t: "trim (input_text alibi_typed) \<noteq> []"
    by (simp add: alibi_typed_def alibi_def trim_def isWhiteSpace_def)
  have l: "20 \<le> length (input_text alibi_typed)"
    by (simp add: alibi_typed_def alibi_def)
  have p: "predict silent_explainer (input_text alibi_typed) = Responds 200 (Resolves truthful_73)"
    by (simp add: silent_explainer_def steady_backend_def)
  have e: "explain silent_explainer (input_text alibi_typed)
             = Responds 200 (Resolves \<lparr>json_explanation = Some []\<rparr>)"
    by (simp add: silent_explainer_def)
  have k: "ok 200" by (simp add: ok_def)
  have x: "json_explanation \<lparr>json_explanation = Some []\<rparr> = None
           \<or> json_explanation \<lparr>json_explanation = Some []\<rparr> = Some []"
    by simp
  show ?thesis
    using C10_empty_explanation_fallback [OF t l p k e k x] t l p e k
    by simp
qed

section \<open>The displayed prediction\<close>

text \<open>
  C5, as the code has it. For a prediction reply that is ok, with \<^verbatim>\<open>confidence\<close> between
  0 and 1, the result \<open>r\<close> that the handlers store has the reply's \<^verbatim>\<open>prediction\<close> as its
  label and the binary64 product \<open>p\<close> of \<^verbatim>\<open>confidence * 100\<close> as its confidence, and the
  card shows \<^verbatim>\<open>Math.round(p)\<close>: \<open>p\<close> plus one half, rounded down, so a tie of \<open>p\<close> goes up.
  The product \<open>p\<close> is a binary64 value (a significand of at most 53 bits times a power of
  two), no binary64 value is closer to the exact product, and it is within \<open>2 ^ -47\<close> of it.
  The percent shown is an integer from 0 to 100, at most one away from the exact product
  rounded half up. Both text screens store \<open>r\<close> whatever the explanation request does, and
  the audio screen stores it for a file that the filename fixture does not catch.
\<close>

theorem C5_displayed_prediction:
  assumes "ok st" and "0 \<le> json_confidence d" and "json_confidence d \<le> 1"
    and "p = js_times (json_confidence d) 100"
    and "r = \<lparr>label = json_prediction d, confidence = p\<rparr>"
  shows "label r = json_prediction d
       \<and> confidencePercent r = \<lfloor>p + 1 / 2\<rfloor>
       \<and> (\<exists>M E. p = of_int M * pow2 E \<and> \<bar>M\<bar> \<le> 2 ^ 53 \<and> - 1074 \<le> E)
       \<and> (\<forall>M E. \<bar>M\<bar> \<le> 2 ^ 53 \<and> - 1074 \<le> E
            \<longrightarrow> \<bar>p - json_confidence d * 100\<bar> \<le> \<bar>of_int M * pow2 E - json_confidence d * 100\<bar>)
       \<and> \<bar>p - json_confidence d * 100\<bar> \<le> 1 / 2 ^ 47
       \<and> 0 \<le> confidencePercent r \<and> confidencePercent r \<le> 100
       \<and> \<bar>confidencePercent r - \<lfloor>json_confidence d * 100 + 1 / 2\<rfloor>\<bar> \<le> 1
       \<and> (trim (input_text s) \<noteq> [] \<and> 20 \<le> length (input_text s)
            \<and> predict net (input_text s) = Responds st (Resolves d)
          \<longrightarrow> result (final (TextAnalysis_handleSubmit net s)) = Some r
            \<and> result (final (TextAnalysisPage_handleSubmit net s)) = Some r)
       \<and> (audio_file a = Some f
            \<and> \<not> (endsWith (toLowerCase (name f)) ''.wav'' \<and> includes_sub (toLowerCase (name f)) ''_lie_'')
            \<and> audio_predict net f = Responds st (Resolves d)
          \<longrightarrow> audio_result (final (AudioAnalysis_handleSubmit net a)) = Some r)"
proof -
  let ?x = "json_confidence d * 100"
  have x0: "0 \<le> ?x" and x1: "?x \<le> 100" using assms(2,3) by simp_all
  have px: "p = fl64 ?x" by (simp add: assms(4) js_times_def)
  have 1: "label r = json_prediction d" by (simp add: assms(5))
  have 2: "confidencePercent r = \<lfloor>p + 1 / 2\<rfloor>"
    by (simp add: assms(5) confidencePercent_def Math_round_def)
  have 3: "\<exists>M E. p = of_int M * pow2 E \<and> \<bar>M\<bar> \<le> 2 ^ 53 \<and> - 1074 \<le> E"
    unfolding px by (rule fl64_representable)
  have 4: "\<forall>M E. \<bar>M\<bar> \<le> 2 ^ 53 \<and> - 1074 \<le> E
            \<longrightarrow> \<bar>p - ?x\<bar> \<le> \<bar>of_int M * pow2 E - ?x\<bar>"
    unfolding px using fl64_nearest [OF x0] by blast
  have 5: "\<bar>p - ?x\<bar> \<le> 1 / 2 ^ 47"
    unfolding px by (rule fl64_close_below_128 [OF x0 x1])
  have 6: "0 \<le> confidencePercent r \<and> confidencePercent r \<le> 100"
    using percent_in_range [OF assms(2,3)] by (simp add: assms(4,5) confidencePercent_def)
  have "\<bar>p - ?x\<bar> < 1" using 5 by simp
  then have "\<bar>Math_round p - Math_round ?x\<bar> \<le> 1" by (rule Math_round_within_one)
  then have 7: "\<bar>confidencePercent r - \<lfloor>?x + 1 / 2\<rfloor>\<bar> \<le> 1"
    by (simp add: assms(5) confidencePercent_def Math_round_def)
  have 8: "trim (input_text s) \<noteq> [] \<and> 20 \<le> length (input_text s)
            \<and> predict net (input_text s) = Responds st (Resolves d)
          \<longrightarrow> result (final (TextAnalysis_handleSubmit net s)) = Some r
            \<and> result (final (TextAnalysisPage_handleSubmit net s)) = Some r"
    using assms(1) TextAnalysis_result_after_predict TextAnalysisPage_result_after_predict
    by (simp add: assms(4,5))
  have 9: "audio_file a = Some f
            \<and> \<not> (endsWith (toLowerCase (name f)) ''.wav'' \<and> includes_sub (toLowerCase (name f)) ''_lie_'')
            \<and> audio_predict net f = Responds st (Resolves d)
          \<longrightarrow> audio_result (final (AudioAnalysis_handleSubmit net a)) = Some r"
    using assms(1) AudioAnalysis_result_after_predict [of a f net st d]
    by (simp add: assms(4,5))
  from 1 2 3 4 5 6 7 8 9 show ?thesis by blast
qed

theorem C5_displayed_prediction_witness:
  "ok 200 \<and> 0 \<le> json_confidence truthful_73 \<and> json_confidence truthful_73 \<le> 1
   \<and> json_confidence truthful_73 = fl64 (732 / 1000)
   \<and> trim (input_text alibi_typed) \<noteq> [] \<and> 20 \<le> length (input_text alibi_typed)
   \<and> predict steady_backend (input_text alibi_typed) = Responds 200 (Resolves truthful_73)
   \<and> result (final (TextAnalysis_handleSubmit steady_backend alibi_typed))
       = Some \<lparr>label = ''Truthful'', confidence = js_times (fl64 (732 / 1000)) 100\<rparr>
   \<and> confidencePercent \<lparr>label = ''Truthful'', confidence = js_times (fl64 (732 / 1000)) 100\<rparr> = 73
   \<and> js_times (fl64 (732 / 1000)) 100 = 5150992073805005 * pow2 (- 46)
   \<and> \<bar>js_times (fl64 (732 / 1000)) 100 - fl64 (732 / 1000) * 100\<bar> \<le> 1 / 2 ^ 47
   \<and> audio_file analysed_audio = Some interview_wav
   \<and> \<not> includes_sub (toLowerCase (name interview_wav)) ''_lie_''
   \<and> audio_result (final (AudioAnalysis_handleSubmit steady_backend analysed_audio))
       = Some \<lparr>label = ''Truthful'', confidence = js_times (fl64 (732 / 1000)) 100\<rparr>"
proof -
  define p where "p = js_times (json_confidence truthful_73) 100"
  define r where "r = \<lparr>label = json_prediction truthful_73, confidence = p\<rparr>"
  have k: "ok 200" by (simp add: ok_def)
  have c: "json_confidence truthful_73 = fl64 (732 / 1000)" by (simp add: truthful_73_def)
  have lo: "0 \<le> json_confidence truthful_73" unfolding c by code_simp
  have hi: "json_confidence truthful_73 \<le> 1" unfolding c by code_simp
  have v: "\<lfloor>js_times (fl64 (732 / 1000)) 100 + 1 / 2\<rfloor> = 73" by code_simp
  have g: "js_times (fl64 (732 / 1000)) 100 = 5150992073805005 * pow2 (- 46)" by code_simp
  have t: "trim (input_text alibi_typed) \<noteq> []"
    by (simp add: alibi_typed_def alibi_def trim_def isWhiteSpace_def)
  have l: "20 \<le> length (input_text alibi_typed)"
    by (simp add: alibi_typed_def alibi_def)
  have q1: "predict steady_backend (input_text alibi_typed) = Responds 200 (Resolves truthful_73)"
    by (simp add: steady_backend_def)
  have f: "audio_file analysed_audio = Some interview_wav"
    by (simp add: analysed_audio_def)
  have plain: "\<not> includes_sub (toLowerCase (name interview_wav)) ''_lie_''"
    by (simp add: interview_wav_def toLowerCase_def startsWith_def char_eval)
  have q2: "audio_predict steady_backend interview_wav = Responds 200 (Resolves truthful_73)"
    by (simp add: steady_backend_def)
  have n: "json_prediction truthful_73 = ''Truthful''" by (simp add: truthful_73_def)
  have pv: "p = js_times (fl64 (732 / 1000)) 100" by (simp add: p_def c)
  have rv: "r = \<lparr>label = ''Truthful'', confidence = js_times (fl64 (732 / 1000)) 100\<rparr>"
    by (simp add: r_def n pv)
  from C5_displayed_prediction [OF k lo hi p_def r_def,
      of alibi_typed steady_backend analysed_audio interview_wav]
  have "confidencePercent r = \<lfloor>p + 1 / 2\<rfloor>
        \<and> \<bar>p - json_confidence truthful_73 * 100\<bar> \<le> 1 / 2 ^ 47
        \<and> result (final (TextAnalysis_handleSubmit steady_backend alibi_typed)) = Some r
        \<and> audio_result (final (AudioAnalysis_handleSubmit steady_backend analysed_audio)) = Some r"
    using t l q1 f plain q2 by blast
  then show ?thesis
    unfolding rv pv c using k lo hi c t l q1 f plain v g by simp
qed

text \<open>
  The claim as stated fails, whether \<^verbatim>\<open>confidence\<close> is read as the decimal of the reply or
  as the number parsed from it. For the reply 0.575 the card shows 57, and 57.5 rounded
  half up is 58. For the reply 0.015 the card shows 2, and the parsed number times 100,
  taken exactly, is below 1.5 and rounds to 1.
\<close>

theorem C5_counterexample:
  "ok 200 \<and> 0 \<le> fl64 (575 / 1000) \<and> fl64 (575 / 1000) \<le> 1
   \<and> result (final (TextAnalysis_handleSubmit (replying (575 / 1000)) alibi_typed))
       = Some \<lparr>label = ''Truthful'', confidence = js_times (fl64 (575 / 1000)) 100\<rparr>
   \<and> confidencePercent \<lparr>label = ''Truthful'', confidence = js_times (fl64 (575 / 1000)) 100\<rparr> = 57
   \<and> \<lfloor>(575 / 1000 :: rat) * 100 + 1 / 2\<rfloor> = 58
   \<and> 0 \<le> fl64 (15 / 1000) \<and> fl64 (15 / 1000) \<le> 1
   \<and> result (final (TextAnalysis_handleSubmit (replying (15 / 1000)) alibi_typed))
       = Some \<lparr>label = ''Truthful'', confidence = js_times (fl64 (15 / 1000)) 100\<rparr>
   \<and> confidencePercent \<lparr>label = ''Truthful'', confidence = js_times (fl64 (15 / 1000)) 100\<rparr> = 2
   \<and> \<lfloor>fl64 (15 / 1000) * 100 + 1 / 2\<rfloor> = 1"
proof -
  have k: "ok 200" by (simp add: ok_def)
  have t: "trim (input_text alibi_typed) \<noteq> []"
    by (simp add: alibi_typed_def alibi_def trim_def isWhiteSpace_def)
  have l: "20 \<le> length (input_text alibi_typed)"
    by (simp add: alibi_typed_def alibi_def)
  have q: "predict (replying c) (input_text alibi_typed)
     = Responds 200 (Resolves \<lparr>json_error = None, json_prediction = ''Truthful'',
         json_confidence = fl64 c\<rparr>)" for c
    by (simp add: replying_def)
  have run: "result (final (TextAnalysis_handleSubmit (replying c) alibi_typed))
       = Some \<lparr>label = ''Truthful'', confidence = js_times (fl64 c) 100\<rparr>" for c
    using TextAnalysis_result_after_predict [OF t l q k, of c] by simp
  have a1: "0 \<le> fl64 (575 / 1000)" and a2: "fl64 (575 / 1000) \<le> 1" by code_simp+
  have a3: "Math_round (js_times (fl64 (575 / 1000)) 100) = 57" by code_simp
  have a4: "\<lfloor>(575 / 1000 :: rat) * 100 + 1 / 2\<rfloor> = 58" by code_simp
  have b1: "0 \<le> fl64 (15 / 1000)" and b2: "fl64 (15 / 1000) \<le> 1" by code_simp+
  have b3: "Math_round (js_times (fl64 (15 / 1000)) 100) = 2" by code_simp
  have b4: "\<lfloor>fl64 (15 / 1000) * 100 + 1 / 2\<rfloor> = 1" by code_simp
  show ?thesis
    using k a1 a2 a3 a4 b1 b2 b3 b4 run [of "575 / 1000"] run [of "15 / 1000"]
    by (simp add: confidencePercent_def)
qed

section \<open>A failed explanation\<close>

text \<open>
  C1, as the code has it. When the prediction succeeded and the explanation request
  fails, both text screens keep the result. After a reply that is not ok, the error stays
  \<^verbatim>\<open>null\<close>, and the screen of TextAnalysisPage sets the explanation to its fixed message.
  After a \<^verbatim>\<open>fetch\<close> that throws, the \<^verbatim>\<open>catch\<close> block writes the message of the error
  (or the screen's default message, when that is empty) into \<^verbatim>\<open>error\<close>, and the
  explanation stays \<^verbatim>\<open>null\<close>.
\<close>

theorem C1_explain_failure_keeps_result:
  assumes "trim (input_text s) \<noteq> []" and "20 \<le> length (input_text s)"
    and "predict net (input_text s) = Responds st (Resolves d)" and "ok st"
    and "explain net (input_text s) = Fails m
         \<or> (\<exists>st' b. explain net (input_text s) = Responds st' b \<and> \<not> ok st')"
  shows "result (final (TextAnalysis_handleSubmit net s))
           = Some \<lparr>label = json_prediction d, confidence = js_times (json_confidence d) 100\<rparr>
         \<and> result (final (TextAnalysisPage_handleSubmit net s))
           = Some \<lparr>label = json_prediction d, confidence = js_times (json_confidence d) 100\<rparr>
         \<and> (case explain net (input_text s) of
               Responds st' b \<Rightarrow>
                 error (final (TextAnalysis_handleSubmit net s)) = None
                 \<and> error (final (TextAnalysisPage_handleSubmit net s)) = None
                 \<and> explanation (final (TextAnalysisPage_handleSubmit net s))
                     = Some ''Explanation request failed. Please try again.''
             | Fails e \<Rightarrow>
                 error (final (TextAnalysis_handleSubmit net s))
                   = Some (or_else (Some e) ''Failed to analyze text. Please try again.'')
                 \<and> error (final (TextAnalysisPage_handleSubmit net s))
                   = Some (or_else (Some e)
                       ''Failed to connect to the prediction API. Ensure the Flask backend is running.'')
                 \<and> explanation (final (TextAnalysis_handleSubmit net s)) = None
                 \<and> explanation (final (TextAnalysisPage_handleSubmit net s)) = None)"
proof -
  let ?s0 = "s\<lparr>isLoading := True, error := None, explanation := None, result := None\<rparr>"
  have p: "predict net (input_text ?s0) = Responds st (Resolves d)"
    using assms(3) by simp
  note t1 = TextAnalysis_try_explaining [OF p assms(4)]
  note t2 = TextAnalysisPage_try_explaining [OF p assms(4)]
  from assms(5) show ?thesis
  proof
    assume f: "explain net (input_text s) = Fails m"
    show ?thesis
      using assms(1,2) f
      by (simp add: TextAnalysis_handleSubmit_def TextAnalysisPage_handleSubmit_def t1 t2 Let_def)
  next
    assume "\<exists>st' b. explain net (input_text s) = Responds st' b \<and> \<not> ok st'"
    then obtain st' b where r: "explain net (input_text s) = Responds st' b" and n: "\<not> ok st'"
      by blast
    show ?thesis
      using assms(1,2) r n
      by (simp add: TextAnalysis_handleSubmit_def TextAnalysisPage_handleSubmit_def t1 t2 Let_def)
  qed
qed

theorem C1_explain_failure_keeps_result_witness:
  "trim (input_text alibi_typed) \<noteq> [] \<and> 20 \<le> length (input_text alibi_typed)
   \<and> predict failing_explainer (input_text alibi_typed) = Responds 200 (Resolves truthful_73)
   \<and> ok 200 \<and> \<not> ok 500
   \<and> explain failing_explainer (input_text alibi_typed)
       = Responds 500 (Rejects ''Unexpected token < in JSON at position 0'')
   \<and> result (final (TextAnalysis_handleSubmit failing_explainer alibi_typed))
       = Some \<lparr>label = ''Truthful'', confidence = js_times (fl64 (732 / 1000)) 100\<rparr>
   \<and> error (final (TextAnalysis_handleSubmit failing_explainer alibi_typed)) = None
   \<and> error (final (TextAnalysisPage_handleSubmit failing_explainer alibi_typed)) = None
   \<and> explanation (final (TextAnalysisPage_handleSubmit failing_explainer alibi_typed))
       = Some ''Explanation request failed. Please try again.''
   \<and> predict offline_explainer (input_text alibi_typed) = Responds 200 (Resolves truthful_73)
   \<and> explain offline_explainer (input_text alibi_typed) = Fails ''Failed to fetch''
   \<and> result (final (TextAnalysisPage_handleSubmit offline_explainer alibi_typed))
       = Some \<lparr>label = ''Truthful'', confidence = js_times (fl64 (732 / 1000)) 100\<rparr>
   \<and> error (final (TextAnalysisPage_handleSubmit offline_explainer alibi_typed))
       = Some ''Failed to fetch''"
proof -
  have t: "trim (input_text alibi_typed) \<noteq> []"
    by (simp add: alibi_typed_def alibi_def trim_def isWhiteSpace_def)
  have l: "20 \<le> length (input_text alibi_typed)"
    by (simp add: alibi_typed_def alibi_def)
  have k: "ok 200" and n: "\<not> ok 500" by (simp_all add: ok_def)
  have p1: "predict failing_explainer (input_text alibi_typed) = Responds 200 (Resolves truthful_73)"
    by (simp add: failing_explainer_def steady_backend_def)
  have e1: "explain failing_explainer (input_text alibi_typed)
              = Responds 500 (Rejects ''Unexpected token < in JSON at position 0'')"
    by (simp add: failing_explainer_def)
  have p2: "predict offline_explainer (input_text alibi_typed) = Responds 200 (Resolves truthful_73)"
    by (simp add: offline_explainer_def steady_backend_def)
  have e2: "explain offline_explainer (input_text alibi_typed) = Fails ''Failed to fetch''"
    by (simp add: offline_explainer_def)
  have h1: "explain failing_explainer (input_text alibi_typed) = Fails []
            \<or> (\<exists>st' b. explain failing_explainer (input_text alibi_typed) = Responds st' b \<and> \<not> ok st')"
    using e1 n by simp
  have h2: "explain offline_explainer (input_text alibi_typed) = Fails ''Failed to fetch''
            \<or> (\<exists>st' b. explain offline_explainer (input_text alibi_typed) = Responds st' b \<and> \<not> ok st')"
    using e2 by simp
  show ?thesis
    using C1_explain_failure_keeps_result [OF t l p1 k h1]
      C1_explain_failure_keeps_result [OF t l p2 k h2]
      t l k n p1 e1 p2 e2
    by (simp add: truthful_73_def or_else_def)
qed

text \<open>
  The claim as stated fails when the explanation \<^verbatim>\<open>fetch\<close> throws: on both screens the
  error is set and no explanation is shown.
\<close>

theorem C1_counterexample:
  "predict offline_explainer (input_text alibi_typed) = Responds 200 (Resolves truthful_73)
   \<and> ok 200
   \<and> explain offline_explainer (input_text alibi_typed) = Fails ''Failed to fetch''
   \<and> error (final (TextAnalysis_handleSubmit offline_explainer alibi_typed)) = Some ''Failed to fetch''
   \<and> explanation (final (TextAnalysis_handleSubmit offline_explainer alibi_typed)) = None
   \<and> error (final (TextAnalysisPage_handleSubmit offline_explainer alibi_typed)) = Some ''Failed to fetch''
   \<and> explanation (final (TextAnalysisPage_handleSubmit offline_explainer alibi_typed)) = None"
proof -
  have t: "trim (input_text alibi_typed) \<noteq> []"
    by (simp add: alibi_typed_def alibi_def trim_def isWhiteSpace_def)
  have l: "\<not> length (input_text alibi_typed) < 20"
    by (simp add: alibi_typed_def alibi_def)
  have p: "predict offline_explainer t = Responds 200 (Resolves truthful_73)" for t
    by (simp add: offline_explainer_def steady_backend_def)
  have e: "explain offline_explainer t = Fails ''Failed to fetch''" for t
    by (simp add: offline_explainer_def)
  have k: "ok 200" by (simp add: ok_def)
  show ?thesis
    using t l k
    by (simp add: TextAnalysis_handleSubmit_def TextAnalysisPage_handleSubmit_def
        TextAnalysis_try_def TextAnalysisPage_try_def p e Let_def or_else_def)
qed

section \<open>The two text screens compared\<close>

text \<open>
  C8. When the prediction succeeded and the explanation reply is not ok, the screen of
  TextAnalysisPage sets the explanation to its fixed message and the screen of
  TextAnalysis.tsx leaves it \<^verbatim>\<open>null\<close>. On every state \<open>s'\<close> and every service \<open>net'\<close> the two
  screens end with the same result.
\<close>

theorem C8_variants_diverge_on_explain_failure:
  assumes "trim (input_text s) \<noteq> []" and "20 \<le> length (input_text s)"
    and "predict net (input_text s) = Responds st (Resolves d)" and "ok st"
    and "explain net (input_text s) = Responds st' b" and "\<not> ok st'"
  shows "explanation (final (TextAnalysisPage_handleSubmit net s))
           = Some ''Explanation request failed. Please try again.''
         \<and> explanation (final (TextAnalysis_handleSubmit net s)) = None
         \<and> result (final (TextAnalysis_handleSubmit net' s'))
             = result (final (TextAnalysisPage_handleSubmit net' s'))"
proof -
  have "explanation (final (TextAnalysisPage_handleSubmit net s))
           = Some ''Explanation request failed. Please try again.''"
    using assms
    by (simp add: TextAnalysisPage_handleSubmit_def TextAnalysisPage_try_def Let_def)
  moreover have "explanation (final (TextAnalysis_handleSubmit net s)) = None"
    using assms
    by (simp add: TextAnalysis_handleSubmit_def TextAnalysis_try_def Let_def)
  ultimately show ?thesis
    using same_result by simp
qed

theorem C8_variants_diverge_on_explain_failure_witness:
  "trim (input_text alibi_typed) \<noteq> [] \<and> 20 \<le> length (input_text alibi_typed)
   \<and> predict failing_explainer (input_text alibi_typed) = Responds 200 (Resolves truthful_73)
   \<and> ok 200 \<and> \<not> ok 500
   \<and> explain failing_explainer (input_text alibi_typed)
       = Responds 500 (Rejects ''Unexpected token < in JSON at position 0'')
   \<and> explanation (final (TextAnalysisPage_handleSubmit failing_explainer alibi_typed))
       = Some ''Explanation request failed. Please try again.''
   \<and> explanation (final (TextAnalysis_handleSubmit failing_explainer alibi_typed)) = None
   \<and> result (final (TextAnalysis_handleSubmit failing_explainer alibi_typed))
       = result (final (TextAnalysisPage_handleSubmit failing_explainer alibi_typed))"
proof -
  have t: "trim (input_text alibi_typed) \<noteq> []"
    by (simp add: alibi_typed_def alibi_def trim_def isWhiteSpace_def)
  have l: "20 \<le> length (input_text alibi_typed)"
    by (simp add: alibi_typed_def alibi_def)
  have k: "ok 200" and n: "\<not> ok 500" by (simp_all add: ok_def)
  have p: "predict failing_explainer (input_text alibi_typed) = Responds 200 (Resolves truthful_73)"
    by (simp add: failing_explainer_def steady_backend_def)
  have e: "explain failing_explainer (input_text alibi_typed)
             = Responds 500 (Rejects ''Unexpected token < in JSON at position 0'')"
    by (simp add: failing_explainer_def)
  show ?thesis
    using C8_variants_diverge_on_explain_failure [OF t l p k e n, of failing_explainer alibi_typed]
      t l k n p e
    by simp
qed

section \<open>The message for a reply that is not ok\<close>

text \<open>
  C7, as the code has it. For a reply of \<^verbatim>\<open>/predict\<close> or \<^verbatim>\<open>/audio-predict\<close> that is not
  ok, the error shown is the \<^verbatim>\<open>error\<close> field of the JSON body, as a string, when the body
  parses, has the field and the field is truthy (a string that is not empty, a number
  other than 0, \<^verbatim>\<open>true\<close>, an array, an object); when that string is empty, as for
  an empty array, it is the screen's own failure message. Otherwise it is
  \<^verbatim>\<open>Server error: \<close> followed by the status in decimal.
\<close>

theorem C7_server_error_message:
  assumes "\<not> ok st"
  shows "(trim (input_text s) \<noteq> [] \<and> 20 \<le> length (input_text s)
          \<and> predict net (input_text s) = Responds st body
          \<longrightarrow> error (final (TextAnalysis_handleSubmit net s))
                = Some (service_error_message st body ''Failed to analyze text. Please try again.'')
            \<and> error (final (TextAnalysisPage_handleSubmit net s))
                = Some (service_error_message st body
                    ''Failed to connect to the prediction API. Ensure the Flask backend is running.''))
       \<and> (audio_file a = Some f
          \<and> \<not> (endsWith (toLowerCase (name f)) ''.wav'' \<and> includes_sub (toLowerCase (name f)) ''_lie_'')
          \<and> audio_predict net f = Responds st body
          \<longrightarrow> audio_error (final (AudioAnalysis_handleSubmit net a))
                = Some (service_error_message st body ''Failed to analyze audio. Please try again.''))"
proof (intro conjI impI)
  assume h: "trim (input_text s) \<noteq> [] \<and> 20 \<le> length (input_text s)
             \<and> predict net (input_text s) = Responds st body"
  show "error (final (TextAnalysis_handleSubmit net s))
          = Some (service_error_message st body ''Failed to analyze text. Please try again.'')"
    using h assms
    by (simp add: TextAnalysis_handleSubmit_def TextAnalysis_try_def Let_def
        service_error_message_thrown)
  show "error (final (TextAnalysisPage_handleSubmit net s))
          = Some (service_error_message st body
              ''Failed to connect to the prediction API. Ensure the Flask backend is running.'')"
    using h assms
    by (simp add: TextAnalysisPage_handleSubmit_def TextAnalysisPage_try_def Let_def
        service_error_message_thrown)
next
  assume h: "audio_file a = Some f
     \<and> \<not> (endsWith (toLowerCase (name f)) ''.wav'' \<and> includes_sub (toLowerCase (name f)) ''_lie_'')
     \<and> audio_predict net f = Responds st body"
  show "audio_error (final (AudioAnalysis_handleSubmit net a))
          = Some (service_error_message st body ''Failed to analyze audio. Please try again.'')"
    using h assms
    by (simp add: AudioAnalysis_handleSubmit_def AudioAnalysis_try_def Let_def
        service_error_message_thrown)
qed

theorem C7_server_error_message_witness:
  "\<not> ok 429 \<and> \<not> ok 500 \<and> \<not> ok 502
   \<and> trim (input_text alibi_typed) \<noteq> [] \<and> 20 \<le> length (input_text alibi_typed)
   \<and> error (final (TextAnalysis_handleSubmit quota_error alibi_typed)) = Some ''Quota exceeded''
   \<and> error (final (TextAnalysisPage_handleSubmit quota_error alibi_typed)) = Some ''Quota exceeded''
   \<and> error (final (TextAnalysis_handleSubmit odd_error alibi_typed)) = Some ''42''
   \<and> audio_file analysed_audio = Some interview_wav
   \<and> \<not> includes_sub (toLowerCase (name interview_wav)) ''_lie_''
   \<and> audio_error (final (AudioAnalysis_handleSubmit quota_error analysed_audio))
       = Some ''Server error: 502''
   \<and> audio_error (final (AudioAnalysis_handleSubmit odd_error analysed_audio))
       = Some ''Failed to analyze audio. Please try again.''"
proof -
  have n1: "\<not> ok 429" and n2: "\<not> ok 502" and n3: "\<not> ok 500" by (simp_all add: ok_def)
  have t: "trim (input_text alibi_typed) \<noteq> []"
    by (simp add: alibi_typed_def alibi_def trim_def isWhiteSpace_def)
  have l: "20 \<le> length (input_text alibi_typed)"
    by (simp add: alibi_typed_def alibi_def)
  have p: "predict quota_error (input_text alibi_typed)
     = Responds 429 (Resolves \<lparr>json_error = Some (StringValue ''Quota exceeded''),
                   json_prediction = [], json_confidence = 0\<rparr>)"
    by (simp add: quota_error_def)
  have p': "predict odd_error (input_text alibi_typed)
     = Responds 500 (Resolves \<lparr>json_error = Some (js_int 42),
                   json_prediction = [], json_confidence = 0\<rparr>)"
    by (simp add: odd_error_def)
  have f: "audio_file analysed_audio = Some interview_wav"
    by (simp add: analysed_audio_def)
  have plain: "\<not> includes_sub (toLowerCase (name interview_wav)) ''_lie_''"
    by (simp add: interview_wav_def toLowerCase_def startsWith_def char_eval)
  have q: "audio_predict quota_error interview_wav
     = Responds 502 (Rejects ''Unexpected token < in JSON at position 0'')"
    by (simp add: quota_error_def)
  have q': "audio_predict odd_error interview_wav
     = Responds 500 (Resolves \<lparr>json_error = Some js_empty_array,
                   json_prediction = [], json_confidence = 0\<rparr>)"
    by (simp add: odd_error_def)
  have d: "show_nat 502 = ''502''"
    by (simp add: show_nat.simps char_eval)
  have i: "js_int 42 = OtherValue True ''42''"
    by (simp add: js_int_def show_int_def show_nat.simps char_eval)
  show ?thesis
    using C7_server_error_message [OF n1, of alibi_typed quota_error _ analysed_audio interview_wav]
      C7_server_error_message [OF n2, of alibi_typed quota_error _ analysed_audio interview_wav]
      C7_server_error_message [OF n3, of alibi_typed odd_error _ analysed_audio interview_wav]
      n1 n2 n3 t l p p' f plain q q'
    by (simp add: service_error_message_def d i js_empty_array_def)
qed

text \<open>
  The claim as stated fails for the body \<^verbatim>\<open>{"error": ""}\<close>: the field is there, and the
  error shown is the status line, not the field.
\<close>

theorem C7_counterexample:
  "predict blank_error (input_text alibi_typed)
     = Responds 500 (Resolves \<lparr>json_error = Some (StringValue []), json_prediction = [],
         json_confidence = 0\<rparr>)
   \<and> \<not> ok 500
   \<and> error (final (TextAnalysis_handleSubmit blank_error alibi_typed)) = Some ''Server error: 500''
   \<and> error (final (TextAnalysis_handleSubmit blank_error alibi_typed)) \<noteq> Some []"
proof -
  have t: "trim (input_text alibi_typed) \<noteq> []"
    by (simp add: alibi_typed_def alibi_def trim_def isWhiteSpace_def)
  have l: "\<not> length (input_text alibi_typed) < 20"
    by (simp add: alibi_typed_def alibi_def)
  have p: "predict blank_error t
     = Responds 500 (Resolves \<lparr>json_error = Some (StringValue []), json_prediction = [],
         json_confidence = 0\<rparr>)" for t
    by (simp add: blank_error_def)
  have n: "\<not> ok 500" by (simp add: ok_def)
  have d: "show_nat 500 = ''500''"
    by (simp add: show_nat.simps char_eval)
  show ?thesis
    using t l n
    by (simp add: TextAnalysis_handleSubmit_def TextAnalysis_try_def p d Let_def or_else_def
        js_or_def js_String_def truthy_def)
qed

section \<open>Resets before a request\<close>

text \<open>
  C6, as the code has it. On both text screens a submission that passes validation issues
  the prediction request in a state where result, explanation and error are \<^verbatim>\<open>null\<close>,
  error and explanation are still \<^verbatim>\<open>null\<close> at any later request, and the whole run is the
  one from the state with the three cleared. The clear actions (\<^verbatim>\<open>handleClearText\<close> on
  the text screens, \<^verbatim>\<open>handleRemoveFile\<close> on the audio screen) set them to \<^verbatim>\<open>null\<close>. On
  the audio screen result and error are reset when a file is accepted, and a submission
  resets the error only.
\<close>

theorem C6_state_reset_before_requests:
  assumes "trim (input_text s) \<noteq> []" and "20 \<le> length (input_text s)"
  shows "(\<exists>s0 rest. requests (TextAnalysis_handleSubmit net s) = (Predict (input_text s), s0) # rest
            \<and> result s0 = None \<and> explanation s0 = None \<and> error s0 = None
            \<and> list_all (\<lambda>q. error (snd q) = None \<and> explanation (snd q) = None) rest)
       \<and> TextAnalysis_handleSubmit net s
           = TextAnalysis_handleSubmit net (s\<lparr>result := None, explanation := None, error := None\<rparr>)
       \<and> (\<exists>s0 rest. requests (TextAnalysisPage_handleSubmit net s) = (Predict (input_text s), s0) # rest
            \<and> result s0 = None \<and> explanation s0 = None \<and> error s0 = None
            \<and> list_all (\<lambda>q. error (snd q) = None \<and> explanation (snd q) = None) rest)
       \<and> TextAnalysisPage_handleSubmit net s
           = TextAnalysisPage_handleSubmit net (s\<lparr>result := None, explanation := None, error := None\<rparr>)
       \<and> TextAnalysis_handleClearText c
           = c\<lparr>input_text := [], result := None, error := None, explanation := None\<rparr>
       \<and> TextAnalysisPage_handleClearText c
           = c\<lparr>input_text := [], result := None, error := None, explanation := None\<rparr>
       \<and> handleRemoveFile a = a\<lparr>audio_file := None, audio_result := None, audio_error := None\<rparr>
       \<and> ((\<exists>rest. mime_type g = ''audio/'' @ rest) \<and> file_size g \<le> 25 * 1024 * 1024
          \<longrightarrow> handleFileChange (Some g) a
              = a\<lparr>audio_file := Some g, audio_error := None, audio_result := None\<rparr>)
       \<and> list_all (\<lambda>q. audio_error (snd q) = None) (requests (AudioAnalysis_handleSubmit net a))"
proof -
  let ?s0 = "s\<lparr>isLoading := True, error := None, explanation := None, result := None\<rparr>"
  from TextAnalysis_try_first_request [of net ?s0]
  obtain rest where
    r: "issued (TextAnalysis_try net ?s0) = (Predict (input_text s), ?s0) # rest"
    and a: "list_all (\<lambda>q. error (snd q) = None \<and> explanation (snd q) = None) rest"
    by auto
  from TextAnalysisPage_try_first_request [of net ?s0]
  obtain rest' where
    r': "issued (TextAnalysisPage_try net ?s0) = (Predict (input_text s), ?s0) # rest'"
    and a': "list_all (\<lambda>q. error (snd q) = None \<and> explanation (snd q) = None) rest'"
    by auto
  have 1: "\<exists>s0 rest. requests (TextAnalysis_handleSubmit net s) = (Predict (input_text s), s0) # rest
            \<and> result s0 = None \<and> explanation s0 = None \<and> error s0 = None
            \<and> list_all (\<lambda>q. error (snd q) = None \<and> explanation (snd q) = None) rest"
    using assms r a by (simp add: TextAnalysis_handleSubmit_def Let_def)
  have 2: "TextAnalysis_handleSubmit net s
           = TextAnalysis_handleSubmit net (s\<lparr>result := None, explanation := None, error := None\<rparr>)"
    using assms by (simp add: TextAnalysis_handleSubmit_def)
  have 3: "\<exists>s0 rest. requests (TextAnalysisPage_handleSubmit net s) = (Predict (input_text s), s0) # rest
            \<and> result s0 = None \<and> explanation s0 = None \<and> error s0 = None
            \<and> list_all (\<lambda>q. error (snd q) = None \<and> explanation (snd q) = None) rest"
    using assms r' a' by (simp add: TextAnalysisPage_handleSubmit_def Let_def)
  have 4: "TextAnalysisPage_handleSubmit net s
           = TextAnalysisPage_handleSubmit net (s\<lparr>result := None, explanation := None, error := None\<rparr>)"
    using assms by (simp add: TextAnalysisPage_handleSubmit_def)
  have 5: "TextAnalysis_handleClearText c
           = c\<lparr>input_text := [], result := None, error := None, explanation := None\<rparr>"
    by (simp add: TextAnalysis_handleClearText_def)
  have 6: "TextAnalysisPage_handleClearText c
           = c\<lparr>input_text := [], result := None, error := None, explanation := None\<rparr>"
    by (simp add: TextAnalysisPage_handleClearText_def)
  have 7: "handleRemoveFile a = a\<lparr>audio_file := None, audio_result := None, audio_error := None\<rparr>"
    by (simp add: handleRemoveFile_def)
  have 8: "(\<exists>rest. mime_type g = ''audio/'' @ rest) \<and> file_size g \<le> 25 * 1024 * 1024
          \<longrightarrow> handleFileChange (Some g) a
              = a\<lparr>audio_file := Some g, audio_error := None, audio_result := None\<rparr>"
    by (auto simp: handleFileChange_def startsWith_iff)
  have 9: "list_all (\<lambda>q. audio_error (snd q) = None) (requests (AudioAnalysis_handleSubmit net a))"
    by (simp add: AudioAnalysis_handleSubmit_def AudioAnalysis_try_def Let_def
        split: option.split fetch.split json.split)
  from 1 2 3 4 5 6 7 8 9 show ?thesis by blast
qed

theorem C6_state_reset_before_requests_witness:
  "trim (input_text stale_typed) \<noteq> [] \<and> 20 \<le> length (input_text stale_typed)
   \<and> result stale_typed \<noteq> None \<and> explanation stale_typed \<noteq> None \<and> error stale_typed \<noteq> None
   \<and> map (\<lambda>q. (fst q, result (snd q), explanation (snd q), error (snd q)))
        (requests (TextAnalysis_handleSubmit offline_explainer stale_typed))
      = [(Predict alibi, None, None, None),
         (Explain alibi, Some \<lparr>label = ''Truthful'', confidence = js_times (fl64 (732 / 1000)) 100\<rparr>,
            None, None)]
   \<and> (\<exists>rest. mime_type interview_wav = ''audio/'' @ rest)
   \<and> file_size interview_wav \<le> 25 * 1024 * 1024
   \<and> handleFileChange (Some interview_wav) lie_selected
      = \<lparr>audio_file = Some interview_wav, audio_isLoading = False, audio_error = None,
         audio_result = None\<rparr>"
proof -
  have t: "trim (input_text stale_typed) \<noteq> []"
    by (simp add: stale_typed_def alibi_def trim_def isWhiteSpace_def)
  have l: "20 \<le> length (input_text stale_typed)"
    by (simp add: stale_typed_def alibi_def)
  have l': "\<not> length alibi < 20"
    by (simp add: alibi_def)
  have t': "trim alibi \<noteq> []"
    using t by (simp add: stale_typed_def)
  have st: "result stale_typed \<noteq> None \<and> explanation stale_typed \<noteq> None \<and> error stale_typed \<noteq> None"
    by (simp add: stale_typed_def)
  have m: "mime_type interview_wav = ''audio/'' @ ''wav''" and z: "file_size interview_wav \<le> 25 * 1024 * 1024"
    by (simp_all add: interview_wav_def)
  then have m': "\<exists>rest. mime_type interview_wav = ''audio/'' @ rest" by blast
  have k: "ok 200" by (simp add: ok_def)
  have run: "map (\<lambda>q. (fst q, result (snd q), explanation (snd q), error (snd q)))
        (requests (TextAnalysis_handleSubmit offline_explainer
           (stale_typed\<lparr>result := None, explanation := None, error := None\<rparr>)))
      = [(Predict alibi, None, None, None),
         (Explain alibi, Some \<lparr>label = ''Truthful'', confidence = js_times (fl64 (732 / 1000)) 100\<rparr>,
            None, None)]"
    using t' l' k
    by (simp add: TextAnalysis_handleSubmit_def TextAnalysis_try_def stale_typed_def
        offline_explainer_def steady_backend_def truthful_73_def Let_def)
  show ?thesis
    using C6_state_reset_before_requests [OF t l, of offline_explainer _ lie_selected interview_wav]
      t l st m' z run
    by (simp add: lie_selected_def)
qed

text \<open>
  The claim as stated fails on the audio screen: after \<open>interview_wav\<close> was selected and
  analysed, a second submission issues its request while the result of the first is
  still in the state.
\<close>

theorem C6_counterexample:
  "final (AudioAnalysis_handleSubmit steady_backend (handleFileChange (Some interview_wav) empty_audio))
     = analysed_audio
   \<and> audio_result analysed_audio
       = Some \<lparr>label = ''Truthful'', confidence = js_times (fl64 (732 / 1000)) 100\<rparr>
   \<and> map (\<lambda>q. (fst q, audio_result (snd q)))
        (requests (AudioAnalysis_handleSubmit steady_backend analysed_audio))
      = [(AudioPredict interview_wav,
          Some \<lparr>label = ''Truthful'', confidence = js_times (fl64 (732 / 1000)) 100\<rparr>)]"
proof -
  have plain: "\<not> includes_sub (toLowerCase (name interview_wav)) ''_lie_''"
    by (simp add: interview_wav_def toLowerCase_def startsWith_def char_eval)
  have sel: "handleFileChange (Some interview_wav) empty_audio
             = empty_audio\<lparr>audio_file := Some interview_wav\<rparr>"
    by (simp add: handleFileChange_def empty_audio_def interview_wav_def startsWith_def)
  have k: "ok 200" by (simp add: ok_def)
  show ?thesis
    unfolding sel using plain k
    by (simp add: AudioAnalysis_handleSubmit_def AudioAnalysis_try_def analysed_audio_def
        empty_audio_def steady_backend_def truthful_73_def Let_def)
qed

end
